theory Spec2Isabelle
  imports Complex_Main
begin

section \<open>Floating-point values\<close>

text \<open>
  The program computes with C++ \<open>float\<close> and \<open>double\<close>. Both are modelled by one type:
  a finite value is a real number, and the three IEEE special values are kept, because
  the program can produce them (\<open>sqrt\<close> of a negative number, a division by zero, the
  explicit \<open>-infinity\<close> in \<open>UpdateGridVertices\<close>). Rounding, overflow to infinity and
  the sign of zero are not modelled: arithmetic on finite values is exact.
\<close>

datatype fl = Fin real | PInf | NInf | NaN

fun fneg :: "fl \<Rightarrow> fl" where
  "fneg (Fin a) = Fin (- a)"
| "fneg PInf = NInf"
| "fneg NInf = PInf"
| "fneg NaN = NaN"

fun fadd :: "fl \<Rightarrow> fl \<Rightarrow> fl" where
  "fadd (Fin a) (Fin b) = Fin (a + b)"
| "fadd NaN y = NaN"
| "fadd x NaN = NaN"
| "fadd PInf NInf = NaN"
| "fadd NInf PInf = NaN"
| "fadd PInf y = PInf"
| "fadd x PInf = PInf"
| "fadd NInf y = NInf"
| "fadd x NInf = NInf"

definition fsub :: "fl \<Rightarrow> fl \<Rightarrow> fl" where
  "fsub x y = fadd x (fneg y)"

fun fmul :: "fl \<Rightarrow> fl \<Rightarrow> fl" where
  "fmul (Fin a) (Fin b) = Fin (a * b)"
| "fmul NaN y = NaN"
| "fmul x NaN = NaN"
| "fmul (Fin a) PInf = (if a = 0 then NaN else if 0 < a then PInf else NInf)"
| "fmul (Fin a) NInf = (if a = 0 then NaN else if 0 < a then NInf else PInf)"
| "fmul PInf (Fin b) = (if b = 0 then NaN else if 0 < b then PInf else NInf)"
| "fmul NInf (Fin b) = (if b = 0 then NaN else if 0 < b then NInf else PInf)"
| "fmul PInf PInf = PInf"
| "fmul PInf NInf = NInf"
| "fmul NInf PInf = NInf"
| "fmul NInf NInf = PInf"

fun fdiv :: "fl \<Rightarrow> fl \<Rightarrow> fl" where
  "fdiv (Fin a) (Fin b) =
     (if b \<noteq> 0 then Fin (a / b)
      else if a = 0 then NaN else if 0 < a then PInf else NInf)"
| "fdiv NaN y = NaN"
| "fdiv x NaN = NaN"
| "fdiv (Fin a) PInf = Fin 0"
| "fdiv (Fin a) NInf = Fin 0"
| "fdiv PInf (Fin b) = (if 0 \<le> b then PInf else NInf)"
| "fdiv NInf (Fin b) = (if 0 \<le> b then NInf else PInf)"
| "fdiv PInf PInf = NaN"
| "fdiv PInf NInf = NaN"
| "fdiv NInf PInf = NaN"
| "fdiv NInf NInf = NaN"

text \<open>\<open>sqrt\<close>: a negative argument gives NaN.\<close>

fun fsqrt :: "fl \<Rightarrow> fl" where
  "fsqrt (Fin a) = (if a < 0 then NaN else Fin (sqrt a))"
| "fsqrt PInf = PInf"
| "fsqrt NInf = NaN"
| "fsqrt NaN = NaN"

text \<open>
  \<open>pow(x, y)\<close> for a finite, positive, non-integer exponent \<open>y\<close>; the program calls
  \<open>pow\<close> only with the exponents \<open>1.0f/3.0f\<close> and \<open>1.0f/2.0f\<close>. A negative finite
  base gives NaN, both infinities give \<open>+infinity\<close>.
\<close>

fun fpow :: "fl \<Rightarrow> real \<Rightarrow> fl" where
  "fpow (Fin a) y = (if a < 0 then NaN else Fin (a powr y))"
| "fpow PInf y = PInf"
| "fpow NInf y = PInf"
| "fpow NaN y = NaN"

fun fabs :: "fl \<Rightarrow> fl" where
  "fabs (Fin a) = Fin \<bar>a\<bar>"
| "fabs PInf = PInf"
| "fabs NInf = PInf"
| "fabs NaN = NaN"

text \<open>The comparison \<open>x < y\<close>: false as soon as one side is NaN.\<close>

fun fless :: "fl \<Rightarrow> fl \<Rightarrow> bool" where
  "fless (Fin a) (Fin b) = (a < b)"
| "fless NaN y = False"
| "fless x NaN = False"
| "fless x NInf = False"
| "fless PInf y = False"
| "fless NInf y = True"
| "fless x PInf = True"

text \<open>\<open>std::max(a, b)\<close> is \<open>(a < b) ? b : a\<close>.\<close>

definition fmax :: "fl \<Rightarrow> fl \<Rightarrow> fl" where
  "fmax a b = (if fless a b then b else a)"

type_synonym vec3 = "fl \<times> fl \<times> fl"

definition vx :: "vec3 \<Rightarrow> fl" where "vx v = fst v"
definition vy :: "vec3 \<Rightarrow> fl" where "vy v = fst (snd v)"
definition vz :: "vec3 \<Rightarrow> fl" where "vz v = snd (snd v)"

text \<open>\<open>glm\<close>: componentwise difference, scaling by a scalar, Euclidean length.\<close>

definition vsub :: "vec3 \<Rightarrow> vec3 \<Rightarrow> vec3" where
  "vsub a b = (fsub (vx a) (vx b), fsub (vy a) (vy b), fsub (vz a) (vz b))"

definition vscale :: "vec3 \<Rightarrow> fl \<Rightarrow> vec3" where
  "vscale v s = (fmul (vx v) s, fmul (vy v) s, fmul (vz v) s)"

definition vlength :: "vec3 \<Rightarrow> fl" where
  "vlength v =
     fsqrt (fadd (fadd (fmul (vx v) (vx v)) (fmul (vy v) (vy v))) (fmul (vz v) (vz v)))"

section \<open>Constants and the simulation state\<close>

definition G :: fl where "G = Fin (66743 / 10 ^ 15)"
definition c :: fl where "c = Fin 299792458"
definition initMass :: fl where "initMass = Fin (10 ^ 22)"
definition sizeRatio :: fl where "sizeRatio = Fin 30000"

text \<open>
  The class \<open>Object\<close>. The fields that only feed the renderer (\<open>VAO\<close>, \<open>vertexCount\<close>,
  \<open>color\<close>, \<open>glow\<close>, \<open>target\<close>, \<open>LastPos\<close>) are left out. The content of the vertex buffer
  \<open>VBO\<close> is the sphere mesh that \<open>Draw\<close> computes from \<open>this->radius\<close> alone, so the
  buffer is represented by the radius it was last drawn with (\<open>mesh\<close>).
\<close>

record Object =
  position :: vec3
  velocity :: vec3
  Initalizing :: bool
  Launched :: bool
  mass :: fl
  density :: fl
  radius :: fl
  mesh :: fl

text \<open>
  The radius expression
  \<open>pow(((3 * mass/density)/(4 * 3.14159265359)), (1.0f/3.0f)) / divisor\<close>,
  which the source writes out four times (constructor, \<open>UpdatePos\<close>, and twice in \<open>main\<close>).
  The exponent \<open>1.0f/3.0f\<close> is taken as one third.
\<close>

definition radius_of :: "fl \<Rightarrow> fl \<Rightarrow> fl \<Rightarrow> fl" where
  "radius_of m d divisor =
     fdiv (fpow (fdiv (fdiv (fmul (Fin 3) m) d) (fmul (Fin 4) (Fin (314159265359 / 10 ^ 11))))
             (1 / 3))
          divisor"

text \<open>\<open>UpdateVertices\<close>: regenerate the mesh from the current radius.\<close>

definition UpdateVertices :: "Object \<Rightarrow> Object" where
  "UpdateVertices this = this\<lparr>mesh := radius this\<rparr>"

text \<open>The constructor \<open>Object(initPosition, initVelocity, mass, density)\<close>.\<close>

definition Object_ctor :: "vec3 \<Rightarrow> vec3 \<Rightarrow> fl \<Rightarrow> fl \<Rightarrow> Object" where
  "Object_ctor initPosition initVelocity m d =
     UpdateVertices
       \<lparr>position = initPosition, velocity = initVelocity, Initalizing = False,
        Launched = False, mass = m, density = d, radius = radius_of m d sizeRatio,
        mesh = Fin 0\<rparr>"

definition UpdatePos :: "Object \<Rightarrow> Object" where
  "UpdatePos this =
     (let p = position this; v = velocity this;
          this1 = this\<lparr>position :=
                    (fadd (vx p) (fdiv (vx v) (Fin 94)),
                     fadd (vy p) (fdiv (vy v) (Fin 94)),
                     fadd (vz p) (fdiv (vz v) (Fin 94)))\<rparr>
      in this1\<lparr>radius := radius_of (mass this1) (density this1) sizeRatio\<rparr>)"

definition accelerate :: "Object \<Rightarrow> fl \<Rightarrow> fl \<Rightarrow> fl \<Rightarrow> Object" where
  "accelerate this x y z =
     (let v = velocity this
      in this\<lparr>velocity :=
                 (fadd (vx v) (fdiv x (Fin 96)),
                  fadd (vy v) (fdiv y (Fin 96)),
                  fadd (vz v) (fdiv z (Fin 96)))\<rparr>)"

definition CheckCollision :: "Object \<Rightarrow> Object \<Rightarrow> fl" where
  "CheckCollision this other =
     (let dx = fsub (vx (position other)) (vx (position this));
          dy = fsub (vy (position other)) (vy (position this));
          dz = fsub (vz (position other)) (vz (position this));
          distance = fpow (fadd (fadd (fmul dx dx) (fmul dy dy)) (fmul dz dz)) (1 / 2)
      in if fless distance (fadd (radius other) (radius this)) then Fin (- 2 / 10)
         else Fin 1)"

record sim =
  running :: bool
  pause :: bool
  deltaTime :: fl
  lastFrame :: fl
  objs :: "Object list"
  gridVertices :: "vec3 list"

text \<open>The three bodies that \<open>main\<close> creates before the render loop.\<close>

definition initial_objs :: "Object list" where
  "initial_objs =
     [Object_ctor (Fin (- 5000), Fin 650, Fin (- 350)) (Fin 0, Fin 0, Fin 1500)
        (Fin (597219 / 10 ^ 5 * 10 ^ 22)) (Fin 5515),
      Object_ctor (Fin 5000, Fin 650, Fin (- 350)) (Fin 0, Fin 0, Fin (- 1500))
        (Fin (597219 / 10 ^ 5 * 10 ^ 22)) (Fin 5515),
      Object_ctor (Fin 0, Fin 0, Fin (- 350)) (Fin 0, Fin 0, Fin 0)
        (Fin (1989 / 10 ^ 3 * 10 ^ 25)) (Fin 5515)]"

section \<open>Input callbacks\<close>

datatype error = OutOfRange

datatype key =
    GLFW_KEY_W | GLFW_KEY_S | GLFW_KEY_A | GLFW_KEY_D | GLFW_KEY_SPACE
  | GLFW_KEY_LEFT_SHIFT | GLFW_KEY_K | GLFW_KEY_Q
  | GLFW_KEY_UP | GLFW_KEY_DOWN | GLFW_KEY_LEFT | GLFW_KEY_RIGHT | GLFW_KEY_OTHER

datatype action = GLFW_RELEASE | GLFW_PRESS | GLFW_REPEAT

datatype button = GLFW_MOUSE_BUTTON_LEFT | GLFW_MOUSE_BUTTON_RIGHT | GLFW_MOUSE_BUTTON_OTHER

text \<open>
  The part of the GLFW window the program reads: which keys and which mouse buttons are
  down. \<open>glfwGetKey\<close> and \<open>glfwGetMouseButton\<close> report the last state, which is
  \<open>GLFW_PRESS\<close> or \<open>GLFW_RELEASE\<close> and never \<open>GLFW_REPEAT\<close>.
\<close>

record window =
  key_down :: "key \<Rightarrow> bool"
  button_down :: "button \<Rightarrow> bool"

definition glfwGetKey :: "window \<Rightarrow> key \<Rightarrow> action" where
  "glfwGetKey w k = (if key_down w k then GLFW_PRESS else GLFW_RELEASE)"

definition glfwGetMouseButton :: "window \<Rightarrow> button \<Rightarrow> action" where
  "glfwGetMouseButton w b = (if button_down w b then GLFW_PRESS else GLFW_RELEASE)"

text \<open>
  The six positioning statements at the end of \<open>keyCallback\<close>, in the order of the
  source, applied to \<open>objs[objs.size()-1]\<close>.
\<close>

definition pressed_or_repeated :: "action \<Rightarrow> bool" where
  "pressed_or_repeated a = (a = GLFW_PRESS \<or> a = GLFW_REPEAT)"

definition add_y :: "fl \<Rightarrow> Object \<Rightarrow> Object" where
  "add_y d ob = ob\<lparr>position :=
     (vx (position ob), fadd (vy (position ob)) d, vz (position ob))\<rparr>"

definition add_x :: "fl \<Rightarrow> Object \<Rightarrow> Object" where
  "add_x d ob = ob\<lparr>position :=
     (fadd (vx (position ob)) d, vy (position ob), vz (position ob))\<rparr>"

definition add_z :: "fl \<Rightarrow> Object \<Rightarrow> Object" where
  "add_z d ob = ob\<lparr>position :=
     (vx (position ob), vy (position ob), fadd (vz (position ob)) d)\<rparr>"

definition nudge :: "key \<Rightarrow> action \<Rightarrow> bool \<Rightarrow> Object \<Rightarrow> Object" where
  "nudge k a shiftPressed ob0 =
     (let ob1 = (if k = GLFW_KEY_UP \<and> pressed_or_repeated a \<and> \<not> shiftPressed
                 then add_y (fmul (radius ob0) (Fin (2 / 10))) ob0 else ob0);
          ob2 = (if k = GLFW_KEY_DOWN \<and> pressed_or_repeated a \<and> \<not> shiftPressed
                 then add_y (fneg (fmul (radius ob1) (Fin (2 / 10)))) ob1 else ob1);
          ob3 = (if k = GLFW_KEY_RIGHT \<and> pressed_or_repeated a
                 then add_x (fmul (radius ob2) (Fin (2 / 10))) ob2 else ob2);
          ob4 = (if k = GLFW_KEY_LEFT \<and> pressed_or_repeated a
                 then add_x (fneg (fmul (radius ob3) (Fin (2 / 10)))) ob3 else ob3);
          ob5 = (if k = GLFW_KEY_UP \<and> pressed_or_repeated a
                 then add_z (fmul (radius ob4) (Fin (2 / 10))) ob4 else ob4)
      in (if k = GLFW_KEY_DOWN \<and> pressed_or_repeated a
          then add_z (fneg (fmul (radius ob5) (Fin (2 / 10)))) ob5 else ob5))"

text \<open>
  \<open>keyCallback\<close>. Its third statement, \<open>Object& lastObj = objs[objs.size() - 1]\<close>,
  indexes the vector without a test: on an empty vector \<open>objs.size() - 1\<close> wraps around
  and the access is out of range, which the model returns as an error. The camera
  movement (keys W, S, A, D, space, left shift) changes only \<open>cameraPos\<close>, which is not
  part of the modelled state. \<open>mods\<close> is the bit field of modifier keys;
  \<open>GLFW_MOD_SHIFT\<close> is bit 0.
\<close>

definition keyCallback :: "window \<Rightarrow> key \<Rightarrow> action \<Rightarrow> nat \<Rightarrow> sim \<Rightarrow> error + sim" where
  "keyCallback w k a mods s =
     (let shiftPressed = odd mods
      in if objs s = [] then Inl OutOfRange
         else
           let s1 = (if glfwGetKey w GLFW_KEY_K = GLFW_PRESS then s\<lparr>pause := True\<rparr> else s);
               s2 = (if glfwGetKey w GLFW_KEY_K = GLFW_RELEASE then s1\<lparr>pause := False\<rparr>
                     else s1);
               s3 = (if glfwGetKey w GLFW_KEY_Q = GLFW_PRESS then s2\<lparr>running := False\<rparr>
                     else s2)
           in Inr (if objs s3 \<noteq> [] \<and> Initalizing (last (objs s3))
                   then s3\<lparr>objs := (objs s3)[length (objs s3) - 1 :=
                                         nudge k a shiftPressed (last (objs s3))]\<rparr>
                   else s3))"

text \<open>
  \<open>mouseButtonCallback\<close>. The left button appends a body on press and launches the
  last body on release; the release branch writes \<open>objs[objs.size()-1]\<close> without a test.
  The right-button block is guarded by \<open>!objs.empty()\<close>.
\<close>

definition mouseButtonCallback :: "window \<Rightarrow> button \<Rightarrow> action \<Rightarrow> nat \<Rightarrow> sim \<Rightarrow> error + sim"
  where
  "mouseButtonCallback w b a mods s =
     (let os1 = (if b = GLFW_MOUSE_BUTTON_LEFT \<and> a = GLFW_PRESS
                 then objs s @
                      [(Object_ctor (Fin 0, Fin 0, Fin 0) (Fin 0, Fin 0, Fin 0) initMass
                          (Fin 3344))\<lparr>Initalizing := True\<rparr>]
                 else objs s)
      in if b = GLFW_MOUSE_BUTTON_LEFT \<and> a = GLFW_RELEASE \<and> os1 = [] then Inl OutOfRange
         else
           let os2 = (if b = GLFW_MOUSE_BUTTON_LEFT \<and> a = GLFW_RELEASE
                      then os1[length os1 - 1 :=
                                 (last os1)\<lparr>Initalizing := False, Launched := True\<rparr>]
                      else os1);
               os3 = (if os2 \<noteq> [] \<and> b = GLFW_MOUSE_BUTTON_RIGHT \<and> Initalizing (last os2)
                         \<and> pressed_or_repeated a
                      then os2[length os2 - 1 :=
                                 (last os2)\<lparr>mass := fmul (mass (last os2)) (Fin (12 / 10))\<rparr>]
                      else os2)
           in Inr (s\<lparr>objs := os3\<rparr>))"

section \<open>One frame of the render loop\<close>

text \<open>
  The body of the block guarded by
  \<open>&obj2 != &obj && !obj.Initalizing && !obj2.Initalizing\<close> in \<open>main\<close>.
  \<open>separation\<close> is the variable \<open>distance\<close> as the block first computes it;
  \<open>attract\<close> is the computation of \<open>direction\<close>, \<open>Gforce\<close>, \<open>acc1\<close> and \<open>acc\<close> followed by
  the call of \<open>accelerate\<close>; \<open>interact\<close> is the whole block: inside
  \<open>if (distance > 0)\<close>, the attraction under \<open>if (!pause)\<close> and then the collision
  damping. The argument \<open>paused\<close> is the global \<open>pause\<close>.
\<close>

definition separation :: "Object \<Rightarrow> Object \<Rightarrow> fl" where
  "separation ob ob2 =
     (let dx = fsub (vx (position ob2)) (vx (position ob));
          dy = fsub (vy (position ob2)) (vy (position ob));
          dz = fsub (vz (position ob2)) (vz (position ob))
      in fsqrt (fadd (fadd (fmul dx dx) (fmul dy dy)) (fmul dz dz)))"

definition attract :: "Object \<Rightarrow> Object \<Rightarrow> Object" where
  "attract ob ob2 =
     (let dx = fsub (vx (position ob2)) (vx (position ob));
          dy = fsub (vy (position ob2)) (vy (position ob));
          dz = fsub (vz (position ob2)) (vz (position ob));
          distance = separation ob ob2;
          direction = (fdiv dx distance, fdiv dy distance, fdiv dz distance);
          distance_m = fmul distance (Fin 1000);
          Gforce = fdiv (fmul (fmul G (mass ob)) (mass ob2)) (fmul distance_m distance_m);
          acc1 = fdiv Gforce (mass ob)
      in accelerate ob (fmul (vx direction) acc1) (fmul (vy direction) acc1)
           (fmul (vz direction) acc1))"

definition interact :: "bool \<Rightarrow> Object \<Rightarrow> Object \<Rightarrow> Object" where
  "interact paused ob ob2 =
     (if fless (Fin 0) (separation ob ob2)
      then
        let ob1 = (if \<not> paused then attract ob ob2 else ob)
        in ob1\<lparr>velocity := vscale (velocity ob1) (CheckCollision ob1 ob2)\<rparr>
      else ob)"

text \<open>
  The inner loop \<open>for (auto& obj2 : objs)\<close> for the body at index \<open>i\<close>; the test
  \<open>&obj2 != &obj\<close> compares the two indices.
\<close>

definition pair_step :: "bool \<Rightarrow> nat \<Rightarrow> Object list \<Rightarrow> Object \<Rightarrow> nat \<Rightarrow> Object" where
  "pair_step paused i os ob j =
     (if j \<noteq> i \<and> \<not> Initalizing ob \<and> \<not> Initalizing (os ! j)
      then interact paused ob (os ! j) else ob)"

definition force_loop :: "bool \<Rightarrow> nat \<Rightarrow> Object list \<Rightarrow> Object" where
  "force_loop paused i os = foldl (pair_step paused i os) (os ! i) [0..<length os]"

text \<open>
  One iteration of the outer loop \<open>for (auto& obj : objs)\<close>: the inner loop, the radius
  of a body under construction, and \<open>UpdatePos\<close> when the simulation is not paused.
\<close>

definition step_object :: "bool \<Rightarrow> Object list \<Rightarrow> nat \<Rightarrow> Object list" where
  "step_object paused os i =
     (let ob1 = force_loop paused i os;
          ob2 = (if Initalizing ob1
                 then UpdateVertices
                        (ob1\<lparr>radius := radius_of (mass ob1) (density ob1) (Fin 1000000)\<rparr>)
                 else ob1);
          ob3 = (if \<not> paused then UpdatePos ob2 else ob2)
      in os[i := ob3])"

definition simulate :: "bool \<Rightarrow> Object list \<Rightarrow> Object list" where
  "simulate paused os = foldl (step_object paused) os [0..<length os]"

text \<open>
  The block before the grid is drawn: while the right mouse button is down, the last
  body, if it is under construction, grows.
\<close>

definition grow :: "bool \<Rightarrow> fl \<Rightarrow> Object list \<Rightarrow> Object list" where
  "grow rightDown dt os =
     (if os \<noteq> [] \<and> Initalizing (last os) \<and> rightDown
      then
        let ob1 = (last os)\<lparr>mass := fmul (mass (last os)) (fadd (Fin 1) (fmul (Fin 1) dt))\<rparr>;
            ob2 = ob1\<lparr>radius := radius_of (mass ob1) (density ob1) sizeRatio\<rparr>
        in os[length os - 1 := UpdateVertices ob2]
      else os)"

section \<open>The grid\<close>

text \<open>
  The vertex buffer is a \<open>std::vector<float>\<close> that \<open>CreateGridVertices\<close> fills three
  floats at a time and that the loops of \<open>UpdateGridVertices\<close> read three at a time; it
  is modelled as the list of its vertices. \<open>UpdateGridVertices\<close> consists of the loop
  for the centre of mass, the loop for the largest height, and the loop that warps the
  vertices; \<open>abs\<close> is the absolute value of a floating-point number.
\<close>

definition center_of_mass_y :: "Object list \<Rightarrow> fl" where
  "center_of_mass_y os =
     (let totals = foldl (\<lambda>(comY, totalMass) ob.
                          if Initalizing ob then (comY, totalMass)
                          else (fadd comY (fmul (mass ob) (vy (position ob))),
                                fadd totalMass (mass ob)))
                       (Fin 0, Fin 0) os
      in if fless (Fin 0) (snd totals) then fdiv (fst totals) (snd totals) else fst totals)"

definition originalMaxY :: "vec3 list \<Rightarrow> fl" where
  "originalMaxY vertices = foldl (\<lambda>m v. fmax m (vy v)) NInf vertices"

text \<open>The body of the loop over the objects: the depth that one body adds at a vertex.\<close>

definition schwarzschild :: "Object \<Rightarrow> fl" where
  "schwarzschild ob = fdiv (fmul (fmul (Fin 2) G) (mass ob)) (fmul c c)"

definition distance_m :: "vec3 \<Rightarrow> Object \<Rightarrow> fl" where
  "distance_m vertexPos ob = fmul (vlength (vsub (position ob) vertexPos)) (Fin 1000)"

definition depth :: "vec3 \<Rightarrow> Object \<Rightarrow> fl" where
  "depth vertexPos ob =
     (let rs = schwarzschild ob
      in fmul (Fin 2) (fsqrt (fmul rs (fsub (distance_m vertexPos ob) rs))))"

definition totalDisplacement_y :: "vec3 \<Rightarrow> Object list \<Rightarrow> fl" where
  "totalDisplacement_y vertexPos os =
     foldl (\<lambda>t ob. fadd t (fmul (depth vertexPos ob) (Fin 2))) (Fin 0) os"

definition UpdateGridVertices :: "vec3 list \<Rightarrow> Object list \<Rightarrow> vec3 list" where
  "UpdateGridVertices vertices os =
     (let comY = center_of_mass_y os;
          verticalShift = fsub comY (originalMaxY vertices)
      in map (\<lambda>vertexPos.
                (vx vertexPos,
                 fadd (totalDisplacement_y vertexPos os) (fneg (fabs verticalShift)),
                 vz vertexPos))
             vertices)"

text \<open>
  The simulation part of one iteration of \<open>while (!glfwWindowShouldClose(window) && running)\<close>:
  the frame time, the growth of the body under construction, the grid, the bodies.
  \<open>currentFrame\<close> is the value of \<open>glfwGetTime()\<close>. The callbacks run afterwards, in
  \<open>glfwPollEvents\<close>, and are the functions of the previous section.
\<close>

definition frame :: "window \<Rightarrow> fl \<Rightarrow> sim \<Rightarrow> sim" where
  "frame w currentFrame s =
     (let dt = fsub currentFrame (lastFrame s);
          os1 = grow (glfwGetMouseButton w GLFW_MOUSE_BUTTON_RIGHT = GLFW_PRESS) dt (objs s);
          grid = UpdateGridVertices (gridVertices s) os1;
          os2 = simulate (pause s) os1
      in s\<lparr>deltaTime := dt, lastFrame := currentFrame, objs := os2, gridVertices := grid\<rparr>)"

section \<open>Building the grid and the initial state\<close>

text \<open>
  The two families of line segments that \<open>CreateGridVertices\<close> generates, in both source
  files: the lines along x for each z, then the lines along z for each x, all at the
  height \<open>-halfSize*0.3f + 3*step\<close>. \<open>gridSize\<close> is the parameter \<open>size\<close>, and \<open>divisions\<close>
  is a count.
\<close>

definition grid_lines :: "fl \<Rightarrow> nat \<Rightarrow> vec3 list" where
  "grid_lines gridSize divisions =
     (let step = fdiv gridSize (Fin (real divisions));
          halfSize = fdiv gridSize (Fin 2);
          y = fadd (fmul (fneg halfSize) (Fin (3 / 10))) (fmul (Fin 3) step);
          coord = (\<lambda>n. fadd (fneg halfSize) (fmul (Fin (real n)) step))
      in concat (map (\<lambda>zStep.
                   concat (map (\<lambda>xStep. [(coord xStep, y, coord zStep),
                                           (fadd (coord xStep) step, y, coord zStep)])
                             [0..<divisions]))
                 [0..<Suc divisions])
         @ concat (map (\<lambda>xStep.
                   concat (map (\<lambda>zStep. [(coord xStep, y, coord zStep),
                                           (coord xStep, y, fadd (coord zStep) step)])
                             [0..<divisions]))
                 [0..<Suc divisions]))"

text \<open>\<open>CreateGridVertices\<close> of \<open>gravity_sim.cpp\<close>: the flat grid; the bodies are not used.\<close>

definition CreateGridVertices :: "fl \<Rightarrow> nat \<Rightarrow> Object list \<Rightarrow> vec3 list" where
  "CreateGridVertices gridSize divisions os = grid_lines gridSize divisions"

text \<open>
  \<open>CreateGridVertices\<close> of the second physics variant (\<open>part_001\<close>), which rebuilds the
  grid in every frame and warps it at once: each body adds
  \<open>2 * sqrt(rs*(distance_m - rs)) * 100.0f\<close> to all three components of
  \<open>totalDisplacement\<close>, and the height becomes \<open>vertexPos[1] / 15.0f - 3000.0f\<close>.
\<close>

definition CreateGridVertices_part_001 :: "fl \<Rightarrow> nat \<Rightarrow> Object list \<Rightarrow> vec3 list" where
  "CreateGridVertices_part_001 gridSize divisions os =
     map (\<lambda>vertexPos.
            (vx vertexPos,
             fsub (fdiv (fadd (vy vertexPos)
                           (foldl (\<lambda>t ob. fadd t (fmul (depth vertexPos ob) (Fin 100)))
                              (Fin 0) os))
                     (Fin 15))
                  (Fin 3000),
             vz vertexPos))
         (grid_lines gridSize divisions)"

text \<open>The global variables as \<open>main\<close> leaves them when it enters the render loop.\<close>

definition initial_sim :: sim where
  "initial_sim =
     \<lparr>running = True, pause = True, deltaTime = Fin 0, lastFrame = Fin 0,
      objs = initial_objs, gridVertices = CreateGridVertices (Fin 20000) 25 initial_objs\<rparr>"

section \<open>Auxiliary notions for the statements\<close>

text \<open>A value that is not negative: what a sum of squares always is.\<close>

fun nonneg :: "fl \<Rightarrow> bool" where
  "nonneg (Fin a) = (0 \<le> a)"
| "nonneg PInf = True"
| "nonneg NInf = False"
| "nonneg NaN = True"

text \<open>
  What one iteration of the outer loop does to the body it visits, once the inner loop
  has run: the two statements after the inner loop.
\<close>

definition settle :: "bool \<Rightarrow> Object \<Rightarrow> Object" where
  "settle paused ob1 =
     (let ob2 = (if Initalizing ob1
                 then UpdateVertices
                        (ob1\<lparr>radius := radius_of (mass ob1) (density ob1) (Fin 1000000)\<rparr>)
                 else ob1)
      in if \<not> paused then UpdatePos ob2 else ob2)"

text \<open>The vector \<open>objs\<close> as it stands when the outer loop reaches the body at index \<open>i\<close>.\<close>

definition before :: "bool \<Rightarrow> Object list \<Rightarrow> nat \<Rightarrow> Object list" where
  "before paused os i = foldl (step_object paused) os [0..<i]"

text \<open>
  The ordered pair \<open>(i, j)\<close> of the collision rule: two distinct bodies, neither under
  construction, at a positive distance that is less than the sum of their radii.
\<close>

definition collides :: "nat \<Rightarrow> Object list \<Rightarrow> nat \<Rightarrow> bool" where
  "collides i os j =
     (j \<noteq> i \<and> \<not> Initalizing (os ! i) \<and> \<not> Initalizing (os ! j)
      \<and> fless (Fin 0) (separation (os ! i) (os ! j))
      \<and> fless (separation (os ! i) (os ! j)) (fadd (radius (os ! i)) (radius (os ! j))))"

text \<open>
  The velocity \<open>v\<close> of body \<open>i\<close> after the attraction of body \<open>j\<close>, which is added only
  when the simulation is not paused and the pair is processed.
\<close>

definition kicked :: "bool \<Rightarrow> nat \<Rightarrow> Object list \<Rightarrow> vec3 \<Rightarrow> nat \<Rightarrow> vec3" where
  "kicked paused i os v j =
     (if \<not> paused \<and> j \<noteq> i \<and> \<not> Initalizing (os ! i) \<and> \<not> Initalizing (os ! j)
         \<and> fless (Fin 0) (separation (os ! i) (os ! j))
      then velocity (attract ((os ! i)\<lparr>velocity := v\<rparr>) (os ! j)) else v)"

definition damped :: "bool \<Rightarrow> nat \<Rightarrow> Object list \<Rightarrow> vec3 \<Rightarrow> nat \<Rightarrow> vec3" where
  "damped paused i os v j =
     (if collides i os j then vscale (kicked paused i os v j) (Fin (- 2 / 10))
      else kicked paused i os v j)"

text \<open>Same place, same flag and, for a body that is not under construction, same radius.\<close>

definition same_shape :: "Object \<Rightarrow> Object \<Rightarrow> bool" where
  "same_shape a b =
     (position a = position b \<and> Initalizing a = Initalizing b
      \<and> (Initalizing a \<or> radius a = radius b))"

text \<open>
  Bodies for the examples: the body that a left click creates at the origin, and a body
  of \<open>6e23\<close> kg with the density of the program's planets on the z axis.
\<close>

definition at_origin :: "vec3 \<Rightarrow> Object" where
  "at_origin v = Object_ctor (Fin 0, Fin 0, Fin 0) v initMass (Fin 3344)"

definition body :: "real \<Rightarrow> vec3 \<Rightarrow> Object" where
  "body z v = Object_ctor (Fin 0, Fin 0, Fin z) v (Fin (6 * 10 ^ 23)) (Fin 5515)"

definition paused_pair :: sim where
  "paused_pair =
     \<lparr>running = True, pause = True, deltaTime = Fin 0, lastFrame = Fin 0,
      objs = [body 0 (Fin 0, Fin 0, Fin 10), body 150 (Fin 0, Fin 0, Fin 0)],
      gridVertices = []\<rparr>"

definition paused_triple :: "Object list" where
  "paused_triple =
     [body 0 (Fin 0, Fin 0, Fin 10), body 150 (Fin 0, Fin 0, Fin 0),
      body (- 150) (Fin 0, Fin 0, Fin 0)]"

definition no_keys :: window where
  "no_keys = \<lparr>key_down = (\<lambda>k. False), button_down = (\<lambda>b. False)\<rparr>"

definition right_down :: window where
  "right_down = \<lparr>key_down = (\<lambda>k. False), button_down = (\<lambda>b. b = GLFW_MOUSE_BUTTON_RIGHT)\<rparr>"

text \<open>The state after a left click at program start: one body, under construction, paused.\<close>

definition creating_state :: sim where
  "creating_state =
     \<lparr>running = True, pause = True, deltaTime = Fin 0, lastFrame = Fin 0,
      objs = [(at_origin (Fin 0, Fin 0, Fin 0))\<lparr>Initalizing := True\<rparr>],
      gridVertices = []\<rparr>"

text \<open>Two equal bodies at rest, 250 units apart, in a running simulation.\<close>

definition resting_pair :: "Object list" where
  "resting_pair = [body 0 (Fin 0, Fin 0, Fin 0), body 250 (Fin 0, Fin 0, Fin 0)]"

definition resting_state :: sim where
  "resting_state =
     \<lparr>running = True, pause = False, deltaTime = Fin 0, lastFrame = Fin 0,
      objs = resting_pair, gridVertices = []\<rparr>"

text \<open>A paused state with one launched body and a grid buffer of one vertex above it.\<close>

definition grid_demo :: sim where
  "grid_demo =
     \<lparr>running = True, pause = True, deltaTime = Fin 0, lastFrame = Fin 0,
      objs = [at_origin (Fin 0, Fin 0, Fin 0)],
      gridVertices = [(Fin 0, Fin 1000, Fin 0)]\<rparr>"

text \<open>The radius of a body is the one its mass and density give with \<open>sizeRatio\<close>.\<close>

definition radius_ok :: "Object \<Rightarrow> bool" where
  "radius_ok ob = (radius ob = radius_of (mass ob) (density ob) sizeRatio)"

section \<open>Arithmetic of the floating-point model\<close>

lemma fmul_one [simp]: "fmul x (Fin 1) = x"
  by (cases x) auto

lemma fadd_commute: "fadd x y = fadd y x"
  by (cases x; cases y) auto

lemma nonneg_square: "nonneg (fmul x x)"
  by (cases x) auto

lemma nonneg_fadd: "nonneg x \<Longrightarrow> nonneg y \<Longrightarrow> nonneg (fadd x y)"
  by (cases x; cases y) auto

lemma fpow_half: "nonneg x \<Longrightarrow> fpow x (1 / 2) = fsqrt x"
  by (cases x) (auto simp: powr_half_sqrt)

lemma fsub_swap: "fsub a b = fneg (fsub b a)"
  by (cases a; cases b) (auto simp: fsub_def)

lemma fmul_fneg_fneg: "fmul (fneg x) (fneg x) = fmul x x"
  by (cases x) auto

lemma cube_root_ge:
  fixes lo x :: real
  assumes "0 \<le> lo" "lo ^ 3 \<le> x"
  shows "lo \<le> x powr (1 / 3)"
proof (cases "lo = 0")
  case True
  then show ?thesis by simp
next
  case False
  with assms have pos: "0 < lo" by simp
  have "(lo ^ 3) powr (1 / 3) = lo"
    using pos by (simp add: powr_powr flip: powr_numeral)
  moreover have "(lo ^ 3) powr (1 / 3) \<le> x powr (1 / 3)"
    using assms by (intro powr_mono2) simp_all
  ultimately show ?thesis by simp
qed

lemma cube_root_le:
  fixes hi x :: real
  assumes "0 \<le> x" "0 \<le> hi" "x \<le> hi ^ 3"
  shows "x powr (1 / 3) \<le> hi"
proof (cases "hi = 0")
  case True
  with assms show ?thesis by simp
next
  case False
  with assms have pos: "0 < hi" by simp
  have "(hi ^ 3) powr (1 / 3) = hi"
    using pos by (simp add: powr_powr flip: powr_numeral)
  moreover have "x powr (1 / 3) \<le> (hi ^ 3) powr (1 / 3)"
    using assms by (intro powr_mono2) simp_all
  ultimately show ?thesis by simp
qed

lemma radius_of_Fin:
  assumes "0 \<le> m" "0 < d" "0 < s"
  shows "radius_of (Fin m) (Fin d) (Fin s) =
           Fin ((3 * m / d / (4 * (314159265359 / 10 ^ 11))) powr (1 / 3) / s)"
proof -
  have "0 \<le> 3 * m / d / (4 * (314159265359 / 10 ^ 11))"
    using assms by simp
  then have "\<not> 3 * m / d / (4 * (314159265359 / 10 ^ 11)) < 0"
    by linarith
  then show ?thesis
    using assms by (simp add: radius_of_def del: divide_divide_eq_left times_divide_eq_right
        times_divide_eq_left divide_divide_eq_right)
qed

section \<open>The inner loop\<close>

lemma CheckCollision_separation:
  "CheckCollision this other =
     (if fless (separation this other) (fadd (radius this) (radius other))
      then Fin (- 2 / 10) else Fin 1)"
  by (simp add: CheckCollision_def separation_def Let_def fpow_half nonneg_fadd nonneg_square
        fadd_commute [of "radius other"])

lemma separation_velocity [simp]: "separation (ob\<lparr>velocity := v\<rparr>) ob2 = separation ob ob2"
  by (simp add: separation_def)

lemma attract_only_velocity: "attract ob ob2 = ob\<lparr>velocity := velocity (attract ob ob2)\<rparr>"
  by (simp add: attract_def accelerate_def Let_def)

lemma interact_only_velocity:
  "interact p ob ob2 = ob\<lparr>velocity := velocity (interact p ob ob2)\<rparr>"
  by (simp add: interact_def attract_def accelerate_def Let_def)

lemma separation_sym: "separation ob ob2 = separation ob2 ob"
proof -
  have sq: "fmul (fsub a b) (fsub a b) = fmul (fsub b a) (fsub b a)" for a b
    using fmul_fneg_fneg [of "fsub b a"] fsub_swap [of a b] by simp
  show ?thesis
    unfolding separation_def Let_def
    by (simp only: sq [of "vx (position ob2)"] sq [of "vy (position ob2)"]
          sq [of "vz (position ob2)"])
qed

lemma vscale_one [simp]: "vscale v (Fin 1) = v"
  by (simp add: vscale_def vx_def vy_def vz_def)

lemma attract_velocity_update:
  "attract (ob\<lparr>velocity := v\<rparr>) ob2 =
     ob\<lparr>velocity := velocity (attract (ob\<lparr>velocity := v\<rparr>) ob2)\<rparr>"
  by (simp add: attract_def accelerate_def Let_def separation_def)

lemma pair_step_velocity:
  "pair_step p i os ((os ! i)\<lparr>velocity := v\<rparr>) j = (os ! i)\<lparr>velocity := damped p i os v j\<rparr>"
proof -
  obtain w where w: "attract ((os ! i)\<lparr>velocity := v\<rparr>) (os ! j) = (os ! i)\<lparr>velocity := w\<rparr>"
    using attract_velocity_update [where ob = "os ! i" and v = v and ?ob2.0 = "os ! j"] by simp
  then have vw: "velocity (attract ((os ! i)\<lparr>velocity := v\<rparr>) (os ! j)) = w"
    by simp
  show ?thesis
    unfolding pair_step_def interact_def damped_def kicked_def collides_def Let_def vw
    by (simp add: w CheckCollision_separation)
qed

lemma foldl_pair_step:
  "foldl (pair_step p i os) ((os ! i)\<lparr>velocity := v\<rparr>) js =
     (os ! i)\<lparr>velocity := foldl (damped p i os) v js\<rparr>"
  by (induction js arbitrary: v) (simp_all add: pair_step_velocity)

lemma force_loop_velocity:
  "force_loop p i os = (os ! i)\<lparr>velocity := foldl (damped p i os) (velocity (os ! i)) [0..<length os]\<rparr>"
  using foldl_pair_step [of p i os "velocity (os ! i)" "[0..<length os]"]
  by (simp add: force_loop_def)

lemma foldl_damped_paused:
  "foldl (damped True i os) v js =
     ((\<lambda>u. vscale u (Fin (- 2 / 10))) ^^ length (filter (collides i os) js)) v"
proof -
  define f where "f = (\<lambda>u. vscale u (Fin (- 2 / 10)))"
  have step: "damped True i os u j = (if collides i os j then f u else u)" for u j
    by (simp add: damped_def kicked_def f_def)
  have "foldl (damped True i os) v js = (f ^^ length (filter (collides i os) js)) v"
    by (induction js arbitrary: v) (simp_all add: step funpow_swap1)
  then show ?thesis by (simp add: f_def)
qed

section \<open>The outer loop\<close>

lemma step_object_settle: "step_object p os i = os[i := settle p (force_loop p i os)]"
  by (simp add: step_object_def settle_def Let_def)

lemma length_step_object [simp]: "length (step_object p os i) = length os"
  by (simp add: step_object_settle)

lemma length_foldl_step [simp]: "length (foldl (step_object p) os js) = length os"
  by (induction js arbitrary: os) simp_all

lemma length_simulate [simp]: "length (simulate p os) = length os"
  by (simp add: simulate_def)

lemma step_object_other: "i \<noteq> j \<Longrightarrow> step_object p os j ! i = os ! i"
  by (simp add: step_object_settle)

lemma step_object_same:
  "i < length os \<Longrightarrow> step_object p os i ! i = settle p (force_loop p i os)"
  by (simp add: step_object_settle)

lemma foldl_step_untouched:
  "i \<notin> set js \<Longrightarrow> foldl (step_object p) os js ! i = os ! i"
  by (induction js arbitrary: os) (auto simp: step_object_other)

lemma length_before [simp]: "length (before p os i) = length os"
  by (simp add: before_def)

lemma before_self: "before p os i ! i = os ! i"
  by (simp add: before_def foldl_step_untouched)

lemma simulate_nth:
  assumes "i < length os"
  shows "simulate p os ! i = settle p (force_loop p i (before p os i))"
proof -
  have split: "[0..<length os] = [0..<i] @ i # [Suc i..<length os]"
  proof -
    have "[0..<length os] = [0..<i] @ [i..<i + (length os - i)]"
      using upt_add_eq_append [of 0 i "length os - i"] assms by simp
    then show ?thesis using assms by (simp add: upt_conv_Cons)
  qed
  have "simulate p os ! i =
          foldl (step_object p) (step_object p (before p os i) i) [Suc i..<length os] ! i"
    by (simp add: simulate_def before_def split)
  also have "\<dots> = step_object p (before p os i) i ! i"
    by (simp add: foldl_step_untouched)
  also have "\<dots> = settle p (force_loop p i (before p os i))"
    using assms by (simp add: step_object_same)
  finally show ?thesis .
qed

lemma objs_frame:
  "objs (frame w t s) =
     simulate (pause s)
       (grow (button_down w GLFW_MOUSE_BUTTON_RIGHT) (fsub t (lastFrame s)) (objs s))"
  by (simp add: frame_def Let_def glfwGetMouseButton_def)

lemma velocity_settle [simp]: "velocity (settle p ob) = velocity ob"
  by (simp add: settle_def UpdatePos_def UpdateVertices_def Let_def)

lemma simulate_velocity:
  assumes "i < length os"
  shows "velocity (simulate p os ! i) =
           foldl (damped p i (before p os i)) (velocity (os ! i)) [0..<length os]"
  using assms by (simp add: simulate_nth force_loop_velocity before_self)

lemma same_shape_refl [simp]: "same_shape a a"
  by (simp add: same_shape_def)

lemma same_shape_settle_paused:
  "same_shape (settle True (force_loop True i os)) (os ! i)"
  by (simp add: settle_def force_loop_velocity same_shape_def UpdateVertices_def)

lemma before_Suc: "before p os (Suc i) = step_object p (before p os i) i"
  by (simp add: before_def)

lemma before_paused_shape:
  "j < length os \<Longrightarrow> same_shape (before True os i ! j) (os ! j)"
proof (induction i)
  case 0
  then show ?case by (simp add: before_def)
next
  case (Suc i)
  show ?case
  proof (cases "j = i")
    case True
    have "same_shape (settle True (force_loop True i (before True os i))) (before True os i ! i)"
      by (rule same_shape_settle_paused)
    then show ?thesis
      using True Suc.prems by (simp add: before_Suc step_object_same before_self)
  next
    case False
    then show ?thesis
      using Suc by (simp add: before_Suc step_object_other)
  qed
qed

lemma separation_shape:
  "position a = position a' \<Longrightarrow> position b = position b' \<Longrightarrow>
   separation a b = separation a' b'"
  by (simp add: separation_def)

lemma collides_before_paused:
  assumes "i < length os" "j < length os"
  shows "collides i (before True os i) j = collides i os j"
proof -
  have a: "same_shape (before True os i ! i) (os ! i)"
    and b: "same_shape (before True os i ! j) (os ! j)"
    using assms by (simp_all add: before_paused_shape)
  have sep: "separation (before True os i ! i) (before True os i ! j) =
             separation (os ! i) (os ! j)"
    using a b by (intro separation_shape) (simp_all add: same_shape_def)
  show ?thesis
    using a b sep by (auto simp add: collides_def same_shape_def)
qed

lemma filter_collides_before_paused:
  assumes "i < length os"
  shows "filter (collides i (before True os i)) [0..<length os] =
         filter (collides i os) [0..<length os]"
  using assms by (intro filter_cong) (simp_all add: collides_before_paused)

lemma simulate_paused_velocity:
  assumes "i < length os"
  shows "velocity (simulate True os ! i) =
           ((\<lambda>v. vscale v (Fin (- 2 / 10))) ^^ length (filter (collides i os) [0..<length os]))
             (velocity (os ! i))"
proof -
  have "velocity (simulate True os ! i) =
          foldl (damped True i (before True os i)) (velocity (os ! i)) [0..<length os]"
    using assms by (rule simulate_velocity)
  also have "\<dots> = ((\<lambda>v. vscale v (Fin (- 2 / 10))) ^^
                     length (filter (collides i (before True os i)) [0..<length os]))
                    (velocity (os ! i))"
    by (rule foldl_damped_paused)
  finally show ?thesis
    by (simp only: filter_collides_before_paused [OF assms])
qed

lemma force_loop_static [simp]:
  "mass (force_loop p i os) = mass (os ! i)"
  "density (force_loop p i os) = density (os ! i)"
  "Initalizing (force_loop p i os) = Initalizing (os ! i)"
  "radius (force_loop p i os) = radius (os ! i)"
  "mesh (force_loop p i os) = mesh (os ! i)"
  "position (force_loop p i os) = position (os ! i)"
  by (simp_all add: force_loop_velocity)

lemma settle_static [simp]:
  "mass (settle p ob) = mass ob"
  "density (settle p ob) = density ob"
  "Initalizing (settle p ob) = Initalizing ob"
  by (simp_all add: settle_def UpdatePos_def UpdateVertices_def Let_def)

lemma settle_radius:
  "radius (settle p ob) =
     (if \<not> p then radius_of (mass ob) (density ob) sizeRatio
      else if Initalizing ob then radius_of (mass ob) (density ob) (Fin 1000000)
      else radius ob)"
  by (simp add: settle_def UpdatePos_def UpdateVertices_def Let_def)

lemma settle_mesh:
  "mesh (settle p ob) =
     (if Initalizing ob then radius_of (mass ob) (density ob) (Fin 1000000) else mesh ob)"
  by (simp add: settle_def UpdatePos_def UpdateVertices_def Let_def)

lemma settle_position_paused [simp]: "position (settle True ob) = position ob"
  by (simp add: settle_def UpdateVertices_def)

lemma simulate_static:
  assumes "i < length os"
  shows "mass (simulate p os ! i) = mass (os ! i)"
    and "density (simulate p os ! i) = density (os ! i)"
    and "Initalizing (simulate p os ! i) = Initalizing (os ! i)"
  using assms by (simp_all add: simulate_nth before_self)

lemma simulate_radius:
  assumes "i < length os"
  shows "radius (simulate p os ! i) =
     (if \<not> p then radius_of (mass (os ! i)) (density (os ! i)) sizeRatio
      else if Initalizing (os ! i)
           then radius_of (mass (os ! i)) (density (os ! i)) (Fin 1000000)
      else radius (os ! i))"
  using assms by (simp add: simulate_nth before_self settle_radius)

lemma simulate_mesh:
  assumes "i < length os"
  shows "mesh (simulate p os ! i) =
     (if Initalizing (os ! i)
      then radius_of (mass (os ! i)) (density (os ! i)) (Fin 1000000) else mesh (os ! i))"
  using assms by (simp add: simulate_nth before_self settle_mesh)

lemma simulate_position_paused:
  assumes "i < length os"
  shows "position (simulate True os ! i) = position (os ! i)"
  using assms by (simp add: simulate_nth before_self)

lemma length_grow [simp]: "length (grow b dt os) = length os"
  by (simp add: grow_def Let_def)

lemma grow_released:
  assumes "\<not> Initalizing (os ! i)" "i < length os"
  shows "grow b dt os ! i = os ! i"
proof (cases "i = length os - 1")
  case True
  moreover from assms have "os \<noteq> []" by auto
  ultimately have "\<not> Initalizing (last os)"
    using assms by (simp add: last_conv_nth)
  then show ?thesis by (simp add: grow_def)
next
  case False
  then show ?thesis by (simp add: grow_def Let_def)
qed

lemma grow_static:
  assumes "i < length os"
  shows "Initalizing (grow b dt os ! i) = Initalizing (os ! i)"
    and "density (grow b dt os ! i) = density (os ! i)"
    and "position (grow b dt os ! i) = position (os ! i)"
    and "velocity (grow b dt os ! i) = velocity (os ! i)"
  using assms
  by (auto simp: grow_def Let_def UpdateVertices_def nth_list_update last_conv_nth)

lemma grow_last:
  assumes "os \<noteq> []" "Initalizing (last os)"
  shows "last (grow True dt os) =
           (let ob1 = (last os)\<lparr>mass := fmul (mass (last os)) (fadd (Fin 1) (fmul (Fin 1) dt))\<rparr>
            in UpdateVertices (ob1\<lparr>radius := radius_of (mass ob1) (density ob1) sizeRatio\<rparr>))"
  using assms by (simp add: grow_def Let_def last_conv_nth)

lemma length_objs_frame [simp]: "length (objs (frame w t s)) = length (objs s)"
  by (simp add: objs_frame)

lemma frame_mass_released:
  assumes "i < length (objs s)" "\<not> Initalizing (objs s ! i)"
  shows "mass (objs (frame w t s) ! i) = mass (objs s ! i)"
  using assms by (simp add: objs_frame simulate_static grow_released)

lemma last_objs_frame:
  assumes "objs s \<noteq> []"
  shows "last (objs (frame w t s)) =
         simulate (pause s)
           (grow (button_down w GLFW_MOUSE_BUTTON_RIGHT) (fsub t (lastFrame s)) (objs s))
         ! (length (objs s) - 1)"
proof -
  have "objs (frame w t s) \<noteq> []"
    using assms length_objs_frame [of w t s] by (metis length_0_conv)
  then show ?thesis
    by (simp add: last_conv_nth) (simp add: objs_frame)
qed

lemma interact_static [simp]:
  "Initalizing (interact p ob ob2) = Initalizing ob"
  "position (interact p ob ob2) = position ob"
  "mass (interact p ob ob2) = mass ob"
  "density (interact p ob ob2) = density ob"
  "radius (interact p ob ob2) = radius ob"
  by (simp_all add: interact_def attract_def accelerate_def Let_def)

lemma simulate_two:
  assumes "\<not> Initalizing A" "\<not> Initalizing B"
  shows "simulate p [A, B] =
           [settle p (interact p A B), settle p (interact p B (settle p (interact p A B)))]"
proof -
  have u: "[0..<2] = [0, 1]" by (simp add: upt_rec)
  show ?thesis
    using assms
    by (simp add: simulate_def step_object_settle force_loop_def pair_step_def u
          numeral_2_eq_2 [symmetric])
qed

lemma simulate_single:
  assumes "\<not> Initalizing ob"
  shows "simulate True [ob] = [ob]"
  using assms
  by (simp add: simulate_def step_object_settle force_loop_def pair_step_def settle_def)

lemma paused_single_frame:
  assumes "objs s = [ob]" "\<not> Initalizing ob" "pause s"
  shows "objs (frame w t s) = [ob]"
    and "gridVertices (frame w t s) = UpdateGridVertices (gridVertices s) [ob]"
    and "pause (frame w t s)"
proof -
  have g: "grow b dt [ob] = [ob]" for b dt
    using assms(2) by (simp add: grow_def)
  show "objs (frame w t s) = [ob]"
    using assms by (simp add: objs_frame g simulate_single)
  show "gridVertices (frame w t s) = UpdateGridVertices (gridVertices s) [ob]"
    using assms by (simp add: frame_def Let_def g)
  show "pause (frame w t s)"
    using assms by (simp add: frame_def Let_def)
qed

section \<open>Finite values\<close>

lemma separation_Fin:
  assumes "position ob = (Fin ax, Fin ay, Fin az)" "position ob2 = (Fin bx, Fin by, Fin bz)"
  shows "separation ob ob2 =
           Fin (sqrt ((bx - ax) * (bx - ax) + (by - ay) * (by - ay) + (bz - az) * (bz - az)))"
proof -
  have "\<not> (bx - ax) * (bx - ax) + (by - ay) * (by - ay) + (bz - az) * (bz - az) < 0"
    by (simp add: not_less add_nonneg_nonneg)
  then show ?thesis
    using assms by (simp add: separation_def vx_def vy_def vz_def fsub_def)
qed

lemma attract_Fin:
  fixes m m2 d :: real
  assumes "position ob = (Fin ax, Fin ay, Fin az)" "position ob2 = (Fin bx, Fin by, Fin bz)"
    and "velocity ob = (Fin ux, Fin uy, Fin uz)"
    and "mass ob = Fin m" "mass ob2 = Fin m2" "m \<noteq> 0"
    and "separation ob ob2 = Fin d" "0 < d"
  shows "velocity (attract ob ob2) =
           (Fin (ux + (bx - ax) / d * (66743 / 10 ^ 15 * m2 / (d * 1000 * (d * 1000))) / 96),
            Fin (uy + (by - ay) / d * (66743 / 10 ^ 15 * m2 / (d * 1000 * (d * 1000))) / 96),
            Fin (uz + (bz - az) / d * (66743 / 10 ^ 15 * m2 / (d * 1000 * (d * 1000))) / 96))"
proof -
  have acc: "66743 / 10 ^ 15 * m * m2 / (d * 1000 * (d * 1000)) / m =
             66743 / 10 ^ 15 * m2 / (d * 1000 * (d * 1000))"
    using assms(6) by simp
  have nz: "d \<noteq> 0" "d * 1000 * (d * 1000) \<noteq> 0" using assms(8) by simp_all
  show ?thesis
    unfolding attract_def accelerate_def Let_def assms(7) assms(1-5) G_def vx_def vy_def vz_def
      fst_conv snd_conv fsub_def fneg.simps fadd.simps fmul.simps fdiv.simps
    using nz assms(6) acc by (simp del: times_divide_eq_right times_divide_eq_left
        divide_divide_eq_left divide_divide_eq_right)
qed

lemma interact_apart:
  assumes "separation ob ob2 = Fin d" "0 < d"
    and "radius ob = Fin r1" "radius ob2 = Fin r2" "r1 + r2 \<le> d"
  shows "interact False ob ob2 = attract ob ob2"
proof -
  have s: "separation (attract ob ob2) ob2 = Fin d"
    using assms(1) attract_only_velocity [of ob ob2] separation_velocity by metis
  have r: "radius (attract ob ob2) = Fin r1"
    using assms(3) by (simp add: attract_def accelerate_def Let_def)
  have "CheckCollision (attract ob ob2) ob2 = Fin 1"
    using assms by (simp add: CheckCollision_separation s r)
  then show ?thesis
    using assms by (simp add: interact_def)
qed

lemma UpdatePos_fields:
  assumes "position ob = (Fin px, Fin py, Fin pz)" "velocity ob = (Fin ux, Fin uy, Fin uz)"
  shows "position (UpdatePos ob) = (Fin (px + ux / 94), Fin (py + uy / 94), Fin (pz + uz / 94))"
    and "velocity (UpdatePos ob) = velocity ob"
    and "mass (UpdatePos ob) = mass ob"
    and "radius (UpdatePos ob) = radius_of (mass ob) (density ob) sizeRatio"
    and "Initalizing (UpdatePos ob) = Initalizing ob"
  using assms by (simp_all add: UpdatePos_def Let_def vx_def vy_def vz_def)

lemma scaled_norm:
  fixes t x y z :: real
  assumes "0 \<le> t"
  shows "sqrt (t * x * (t * x) + t * y * (t * y) + t * z * (t * z)) =
         t * sqrt (x * x + y * y + z * z)"
proof -
  have "t * x * (t * x) + t * y * (t * y) + t * z * (t * z) = t\<^sup>2 * (x * x + y * y + z * z)"
    by (simp add: power2_eq_square algebra_simps)
  then show ?thesis
    using assms by (simp add: real_sqrt_mult)
qed

lemma radius_of_divisors_differ:
  assumes "0 < m" "0 < d"
  shows "radius_of (Fin m) (Fin d) (Fin 1000000) \<noteq> radius_of (Fin m) (Fin d) sizeRatio"
proof -
  have "0 < (3 * m / d / (4 * (314159265359 / 10 ^ 11))) powr (1 / 3)"
    using assms by simp
  then show ?thesis
    using assms by (simp add: radius_of_Fin sizeRatio_def)
qed

section \<open>Properties of the grid\<close>

lemma schwarzschild_Fin:
  assumes "mass ob = Fin m"
  shows "schwarzschild ob = Fin (2 * (66743 / 10 ^ 15) * m / (299792458 * 299792458))"
  using assms by (simp add: schwarzschild_def G_def c_def)

lemma depth_Fin:
  assumes "schwarzschild ob = Fin rs" "0 < rs" "distance_m v ob = Fin dm"
  shows "depth v ob = (if dm < rs then NaN else Fin (2 * sqrt (rs * (dm - rs))))"
proof -
  have "rs * (dm - rs) < 0 \<longleftrightarrow> dm < rs"
    using assms(2) by (simp add: mult_less_0_iff)
  then show ?thesis
    using assms by (simp add: depth_def fsub_def)
qed

lemma fadd_NaN_right [simp]: "fadd x NaN = NaN"
  by (cases x) simp_all

lemma fmul_NaN_left [simp]: "fmul NaN x = NaN"
  by simp

lemma foldl_depth_NaN:
  "foldl (\<lambda>t ob. fadd t (fmul (depth v ob) (Fin q))) NaN os = NaN"
  by (induction os) simp_all

lemma foldl_depth_NaN_member:
  assumes "ob \<in> set os" "depth v ob = NaN"
  shows "foldl (\<lambda>t ob. fadd t (fmul (depth v ob) (Fin q))) t0 os = NaN"
  using assms
proof (induction os arbitrary: t0)
  case Nil
  then show ?case by simp
next
  case (Cons a os)
  show ?case
  proof (cases "a = ob")
    case True
    then show ?thesis using Cons.prems by (simp add: foldl_depth_NaN)
  next
    case False
    then show ?thesis using Cons by simp
  qed
qed

lemma totalDisplacement_NaN:
  assumes "ob \<in> set os" "depth v ob = NaN"
  shows "totalDisplacement_y v os = NaN"
  using assms by (simp add: totalDisplacement_y_def foldl_depth_NaN_member)

lemma CreateGridVertices_part_001_NaN:
  assumes "ob \<in> set os" "depth v ob = NaN" "v \<in> set (grid_lines gridSize n)"
  shows "(vx v, NaN, vz v) \<in> set (CreateGridVertices_part_001 gridSize n os)"
proof -
  have "fadd (vy v) NaN = NaN" by simp
  then have "(\<lambda>vertexPos.
            (vx vertexPos,
             fsub (fdiv (fadd (vy vertexPos)
                           (foldl (\<lambda>t ob. fadd t (fmul (depth vertexPos ob) (Fin 100)))
                              (Fin 0) os))
                     (Fin 15))
                  (Fin 3000),
             vz vertexPos)) v = (vx v, NaN, vz v)"
    using assms(1,2) by (simp add: foldl_depth_NaN_member fsub_def)
  then show ?thesis
    using assms(3) unfolding CreateGridVertices_part_001_def by (metis (lifting) image_eqI set_map)
qed

lemma UpdateGridVertices_NaN:
  assumes "ob \<in> set os" "depth v ob = NaN" "v \<in> set vertices"
  shows "(vx v, NaN, vz v) \<in> set (UpdateGridVertices vertices os)"
proof -
  have "(\<lambda>vertexPos. (vx vertexPos,
           fadd (totalDisplacement_y vertexPos os)
             (fneg (fabs (fsub (center_of_mass_y os) (originalMaxY vertices)))),
           vz vertexPos)) v = (vx v, NaN, vz v)"
    using assms by (simp add: totalDisplacement_NaN)
  then show ?thesis
    using assms(3) unfolding UpdateGridVertices_def Let_def by (metis (lifting) image_eqI set_map)
qed

lemma distance_m_at_origin:
  "distance_m (Fin 0, Fin 0, Fin 0) (at_origin u) = Fin 0"
  by (simp add: distance_m_def vlength_def vsub_def vx_def vy_def vz_def fsub_def
        at_origin_def Object_ctor_def UpdateVertices_def)

lemma com_at_origin: "center_of_mass_y [at_origin (Fin 0, Fin 0, Fin 0)] = Fin 0"
  by (simp add: center_of_mass_y_def at_origin_def Object_ctor_def UpdateVertices_def
        initMass_def vy_def)

lemma update_single:
  "UpdateGridVertices [(Fin 0, Fin y, Fin 0)] [at_origin (Fin 0, Fin 0, Fin 0)] =
     [(Fin 0,
       fadd (fmul (depth (Fin 0, Fin y, Fin 0) (at_origin (Fin 0, Fin 0, Fin 0))) (Fin 2))
            (Fin (- \<bar>y\<bar>)),
       Fin 0)]"
  by (cases "depth (Fin 0, Fin y, Fin 0) (at_origin (Fin 0, Fin 0, Fin 0))")
     (simp_all add: UpdateGridVertices_def com_at_origin originalMaxY_def fmax_def fsub_def
        totalDisplacement_y_def vx_def vy_def vz_def)

lemma distance_m_single:
  "distance_m (Fin 0, Fin y, Fin 0) (at_origin (Fin 0, Fin 0, Fin 0)) = Fin (\<bar>y\<bar> * 1000)"
  by (simp add: distance_m_def vlength_def vsub_def vx_def vy_def vz_def fsub_def
        at_origin_def Object_ctor_def UpdateVertices_def)

section \<open>Two bodies at rest\<close>

lemma two_bodies_at_rest:
  fixes ax ay az bx "by" bz m rA rB :: real
  defines "d \<equiv> sqrt ((bx - ax) * (bx - ax) + (by - ay) * (by - ay) + (bz - az) * (bz - az))"
  defines "a \<equiv> 66743 / 10 ^ 15 * m / (d * 1000 * (d * 1000))"
  defines "k \<equiv> a / 96 / 94"
  defines "a' \<equiv> 66743 / 10 ^ 15 * m / ((d - k) * 1000 * ((d - k) * 1000))"
  assumes pA: "position A = (Fin ax, Fin ay, Fin az)"
    and pB: "position B = (Fin bx, Fin by, Fin bz)"
    and vA: "velocity A = (Fin 0, Fin 0, Fin 0)"
    and vB: "velocity B = (Fin 0, Fin 0, Fin 0)"
    and mA: "mass A = Fin m" and mB: "mass B = Fin m" and m: "0 < m"
    and iA: "\<not> Initalizing A" and iB: "\<not> Initalizing B"
    and rA: "radius A = Fin rA" "radius_of (mass A) (density A) sizeRatio = Fin rA"
    and rB: "radius B = Fin rB"
    and d: "0 < d" and apart: "rA + rB \<le> d - k" and k: "k < d"
  shows "velocity (simulate False [A, B] ! 0) =
           (Fin ((bx - ax) / d * a / 96), Fin ((by - ay) / d * a / 96),
            Fin ((bz - az) / d * a / 96))
       \<and> velocity (simulate False [A, B] ! 1) =
           (Fin (- ((bx - ax) / d) * a' / 96), Fin (- ((by - ay) / d) * a' / 96),
            Fin (- ((bz - az) / d) * a' / 96))
       \<and> 0 < a \<and> a < a'"
proof -
  have a: "0 < a" using m d by (simp add: a_def)
  have k0: "0 < k" using a by (simp add: k_def)
  have sAB: "separation A B = Fin d"
    unfolding d_def using pA pB by (rule separation_Fin)
  have "rA + rB \<le> d" using apart k0 by simp
  with sAB d rA(1) rB have iAB: "interact False A B = attract A B"
    by (rule interact_apart)
  define wx wy wz where "wx = (bx - ax) / d * a / 96" and "wy = (by - ay) / d * a / 96"
    and "wz = (bz - az) / d * a / 96"
  have vA1: "velocity (attract A B) = (Fin wx, Fin wy, Fin wz)"
    using attract_Fin [OF pA pB vA mA mB _ sAB d] m
    by (simp add: wx_def wy_def wz_def a_def)
  define A' where "A' = settle False (interact False A B)"
  have A'_eq: "A' = UpdatePos (attract A B)"
    using iA by (simp add: A'_def iAB settle_def attract_def accelerate_def Let_def)
  have pA1: "position (attract A B) = (Fin ax, Fin ay, Fin az)"
    using pA by (simp add: attract_def accelerate_def Let_def)
  have pA': "position A' = (Fin (ax + wx / 94), Fin (ay + wy / 94), Fin (az + wz / 94))"
    unfolding A'_eq using pA1 vA1 by (rule UpdatePos_fields(1))
  have vA': "velocity A' = (Fin wx, Fin wy, Fin wz)"
    unfolding A'_eq using UpdatePos_fields(2) [OF pA1 vA1] vA1 by simp
  have mA': "mass A' = Fin m"
    unfolding A'_eq using UpdatePos_fields(3) [OF pA1 vA1] mA
    by (simp add: attract_def accelerate_def Let_def)
  have rA': "radius A' = Fin rA"
    unfolding A'_eq using UpdatePos_fields(4) [OF pA1 vA1] rA(2)
    by (simp add: attract_def accelerate_def Let_def)
  have iA': "\<not> Initalizing A'"
    unfolding A'_eq using UpdatePos_fields(5) [OF pA1 vA1] iA
    by (simp add: attract_def accelerate_def Let_def)
  define t where "t = (d - k) / d"
  have t: "0 < t" using k d by (simp add: t_def)
  have dk: "t * d = d - k" using d by (simp add: t_def)
  have cx: "ax + wx / 94 - bx = t * (ax - bx)"
    and cy: "ay + wy / 94 - by = t * (ay - by)"
    and cz: "az + wz / 94 - bz = t * (az - bz)"
    using d by (simp_all add: wx_def wy_def wz_def t_def k_def field_simps)
  have dsym: "sqrt ((ax - bx) * (ax - bx) + (ay - by) * (ay - by) + (az - bz) * (az - bz)) = d"
    unfolding d_def by (simp add: algebra_simps)
  have sBA': "separation B A' = Fin (d - k)"
  proof -
    have "separation B A' =
        Fin (sqrt ((ax + wx / 94 - bx) * (ax + wx / 94 - bx)
                 + (ay + wy / 94 - by) * (ay + wy / 94 - by)
                 + (az + wz / 94 - bz) * (az + wz / 94 - bz)))"
      using pB pA' by (rule separation_Fin)
    also have "\<dots> = Fin (t * d)"
      unfolding cx cy cz using scaled_norm [of t "ax - bx" "ay - by" "az - bz"] t dsym
      by simp
    finally show ?thesis by (simp add: dk)
  qed
  have dk0: "0 < d - k" using k by simp
  have "rB + rA \<le> d - k" using apart by simp
  with sBA' dk0 rB rA' have iBA: "interact False B A' = attract B A'"
    by (rule interact_apart)
  have dirx: "(ax + wx / 94 - bx) / (d - k) = - ((bx - ax) / d)"
    and diry: "(ay + wy / 94 - by) / (d - k) = - ((by - ay) / d)"
    and dirz: "(az + wz / 94 - bz) / (d - k) = - ((bz - az) / d)"
    unfolding cx cy cz using d dk0 by (simp_all add: t_def field_simps)
  have vB1: "velocity (attract B A') =
      (Fin (- ((bx - ax) / d) * a' / 96), Fin (- ((by - ay) / d) * a' / 96),
       Fin (- ((bz - az) / d) * a' / 96))"
    using attract_Fin [OF pB pA' vB mB mA' _ sBA' dk0] m
    unfolding dirx diry dirz by (simp add: a'_def)
  have pB1: "position (attract B A') = (Fin bx, Fin by, Fin bz)"
    using pB by (simp add: attract_def accelerate_def Let_def)
  have sim: "simulate False [A, B] = [A', settle False (interact False B A')]"
    using iA iB by (simp add: simulate_two A'_def)
  have B'_eq: "settle False (interact False B A') = UpdatePos (attract B A')"
    using iB by (simp add: iBA settle_def attract_def accelerate_def Let_def)
  have vB': "velocity (UpdatePos (attract B A')) = velocity (attract B A')"
    using pB1 vB1 by (rule UpdatePos_fields(2))
  have lt: "a < a'"
  proof -
    have x: "(d - k) * 1000 < d * 1000" "0 < d * 1000" "0 \<le> (d - k) * 1000"
      using dk0 k0 by simp_all
    have "(d - k) * 1000 * ((d - k) * 1000) < d * 1000 * (d * 1000)"
      using mult_strict_mono [OF x(1) x(1) x(2) x(3)] .
    moreover have "0 < (d - k) * 1000 * ((d - k) * 1000)" using dk0 by simp
    ultimately show ?thesis
      unfolding a_def a'_def using m by (intro divide_strict_left_mono) simp_all
  qed
  show ?thesis
    using a lt by (simp add: sim vA' B'_eq vB' vB1 wx_def wy_def wz_def)
qed

section \<open>The example bodies\<close>

lemma radius_body: "\<exists>r. radius (body z v) = Fin r \<and> 75 < r \<and> r < 100"
proof -
  define x :: real where "x = 3 * (6 * 10 ^ 23) / 5515 / (4 * (314159265359 / 10 ^ 11))"
  have r: "radius (body z v) = Fin (x powr (1 / 3) / 30000)"
    by (simp add: body_def Object_ctor_def UpdateVertices_def sizeRatio_def x_def
          radius_of_Fin)
  have "2250001 ^ 3 \<le> x" by (simp add: x_def)
  then have lo: "2250001 \<le> x powr (1 / 3)" by (intro cube_root_ge) simp_all
  have "0 \<le> x" "x \<le> 2999999 ^ 3" by (simp_all add: x_def)
  then have hi: "x powr (1 / 3) \<le> 2999999" by (intro cube_root_le) simp_all
  show ?thesis
    using r lo hi by (intro exI [of _ "x powr (1 / 3) / 30000"]) simp
qed

lemma body_fields [simp]:
  "position (body z v) = (Fin 0, Fin 0, Fin z)" "velocity (body z v) = v"
  "\<not> Initalizing (body z v)"
  by (simp_all add: body_def Object_ctor_def UpdateVertices_def)

lemma separation_bodies: "separation (body z v) (body z' v') = Fin \<bar>z' - z\<bar>"
  by (simp add: separation_def vx_def vy_def vz_def fsub_def)

lemma bodies_overlap:
  assumes "\<bar>z' - z\<bar> \<le> 150"
  shows "fless (separation (body z v) (body z' v')) (fadd (radius (body z v)) (radius (body z' v')))"
proof -
  obtain r where r: "radius (body z v) = Fin r" "75 < r" using radius_body by blast
  obtain r' where r': "radius (body z' v') = Fin r'" "75 < r'" using radius_body by blast
  show ?thesis using assms r r' by (simp add: separation_bodies)
qed

lemma sqrt_62500: "sqrt 62500 = 250"
  using real_sqrt_abs [of 250] by simp

lemma body_radius_formula:
  "radius_of (mass (body z v)) (density (body z v)) sizeRatio = radius (body z v)"
  by (simp add: body_def Object_ctor_def UpdateVertices_def)

lemma body_mass [simp]: "mass (body z v) = Fin (6 * 10 ^ 23)"
  by (simp add: body_def Object_ctor_def UpdateVertices_def)

lemma resting_pair_velocities:
  "\<exists>va vb. velocity (simulate False resting_pair ! 0) = (Fin 0, Fin 0, Fin va)
         \<and> velocity (simulate False resting_pair ! 1) = (Fin 0, Fin 0, Fin (- vb))
         \<and> 0 < va \<and> va * (10005 / 10000) < vb"
proof -
  let ?A = "body 0 (Fin 0, Fin 0, Fin 0)" and ?B = "body 250 (Fin 0, Fin 0, Fin 0)"
  obtain rA where rA: "radius ?A = Fin rA" "rA < 100" using radius_body by blast
  obtain rB where rB: "radius ?B = Fin rB" "rB < 100" using radius_body by blast
  define a :: real where "a = 66743 / 10 ^ 15 * (6 * 10 ^ 23) / (250 * 1000 * (250 * 1000))"
  define k where "k = a / 96 / 94"
  define a' where "a' = 66743 / 10 ^ 15 * (6 * 10 ^ 23) / ((250 - k) * 1000 * ((250 - k) * 1000))"
  have k: "0 < k" "k < 1" by (simp_all add: k_def a_def)
  have d: "sqrt ((0 - 0) * (0 - 0) + (0 - 0) * (0 - 0) + (250 - 0) * (250 - 0)) = (250::real)"
    by (simp add: sqrt_62500)
  have facts:
    "velocity (simulate False [?A, ?B] ! 0) =
       (Fin ((0 - 0) / 250 * a / 96), Fin ((0 - 0) / 250 * a / 96), Fin ((250 - 0) / 250 * a / 96))
     \<and> velocity (simulate False [?A, ?B] ! 1) =
       (Fin (- ((0 - 0) / 250) * a' / 96), Fin (- ((0 - 0) / 250) * a' / 96),
        Fin (- ((250 - 0) / 250) * a' / 96))
     \<and> 0 < a \<and> a < a'"
    unfolding a_def a'_def k_def
    using two_bodies_at_rest [of ?A 0 0 0 ?B 0 0 250 "6 * 10 ^ 23" rA rB, unfolded d]
      rA rB k body_radius_formula [of 0 "(Fin 0, Fin 0, Fin 0)"]
    unfolding k_def a_def by simp
  have ratio: "a * (10005 / 10000) < a'"
  proof -
    have "(250 - k) * 1000 * ((250 - k) * 1000) * (10005 / 10000) < 250 * 1000 * (250 * 1000)"
      unfolding k_def a_def by (simp add: field_simps)
    moreover have "0 < (250 - k) * 1000 * ((250 - k) * 1000)" using k by simp
    ultimately show ?thesis
      unfolding a_def a'_def by (simp add: field_simps)
  qed
  have "velocity (simulate False resting_pair ! 0) = (Fin 0, Fin 0, Fin (a / 96))"
    and "velocity (simulate False resting_pair ! 1) = (Fin 0, Fin 0, Fin (- (a' / 96)))"
    using facts by (simp_all add: resting_pair_def)
  moreover have "0 < a / 96" "a / 96 * (10005 / 10000) < a' / 96"
    using facts ratio by simp_all
  ultimately show ?thesis by blast
qed

section \<open>Pausing\<close>

text \<open>A paused frame moves no body.\<close>

lemma paused_frame_keeps_positions:
  assumes "i < length (objs s)" "pause s"
  shows "position (objs (frame w t s) ! i) = position (objs s ! i)"
  using assms by (simp add: objs_frame simulate_position_paused grow_static)

text \<open>
  C1. While \<open>pause\<close> is set, a frame must change no velocity and no position. The
  program tests \<open>pause\<close> before \<open>accelerate\<close> and before \<open>UpdatePos\<close>, but the collision
  damping \<open>obj.velocity *= obj.CheckCollision(obj2)\<close> stands outside the test: in the
  paused state \<open>paused_pair\<close>, two overlapping bodies, the first one has the velocity
  \<open>(0, 0, 10)\<close> before the frame and \<open>(0, 0, -2)\<close> after it.
\<close>

theorem paused_frame_changes_velocity:
  "pause paused_pair \<and> velocity (objs paused_pair ! 0) = (Fin 0, Fin 0, Fin 10) \<and>
   velocity (objs (frame w t paused_pair) ! 0) = (Fin 0, Fin 0, Fin (- 2))"
proof -
  let ?os = "[body 0 (Fin 0, Fin 0, Fin 10), body 150 (Fin 0, Fin 0, Fin 0)]"
  have g: "grow b dt ?os = ?os" for b dt
    by (simp add: grow_def)
  have c0: "\<not> collides 0 ?os 0" by (simp add: collides_def)
  have c1: "collides 0 ?os 1"
    using bodies_overlap [of 150 0 "(Fin 0, Fin 0, Fin 10)" "(Fin 0, Fin 0, Fin 0)"]
    by (simp add: collides_def separation_bodies)
  have f: "filter (collides 0 ?os) [0..<length ?os] = [1]"
    using c0 c1 by (simp add: upt_rec)
  have "velocity (simulate True ?os ! 0) = vscale (Fin 0, Fin 0, Fin 10) (Fin (- 2 / 10))"
    using simulate_paused_velocity [of 0 ?os] by (simp only: f) simp
  then show ?thesis
    by (simp add: objs_frame paused_pair_def g vscale_def vx_def vy_def vz_def)
qed

section \<open>Collision damping\<close>

text \<open>
  C5. In one frame, the velocity of the body at index \<open>i\<close> is the velocity it had,
  run through the pairs \<open>(i, j)\<close> in the order of the vector: each pair adds its
  attraction when the simulation is not paused, and scales the velocity by \<open>-0.2\<close>
  exactly when \<open>j\<close> is another body, neither is under construction and their positive
  distance is less than the sum of their radii. While the simulation is paused, the
  velocity after the frame is the velocity scaled by \<open>-0.2\<close> once for each of the \<open>k\<close>
  overlapping partners.
\<close>

theorem damping_once_per_overlapping_pair:
  assumes "i < length os"
  shows "velocity (simulate paused os ! i) =
           foldl (damped paused i (before paused os i)) (velocity (os ! i)) [0..<length os]
         \<and> velocity (simulate True os ! i) =
           ((\<lambda>v. vscale v (Fin (- 2 / 10))) ^^ length (filter (collides i os) [0..<length os]))
             (velocity (os ! i))"
  using assms simulate_velocity [OF assms, of paused] simulate_paused_velocity [OF assms]
  by (simp only: simp_thms)

theorem damping_once_per_overlapping_pair_witness:
  "0 < length paused_triple \<and>
   length (filter (collides 0 paused_triple) [0..<length paused_triple]) = 2 \<and>
   velocity (paused_triple ! 0) = (Fin 0, Fin 0, Fin 10) \<and>
   velocity (simulate True paused_triple ! 0) = (Fin 0, Fin 0, Fin (4 / 10))"
proof -
  have l: "0 < length paused_triple" by (simp add: paused_triple_def)
  have c0: "\<not> collides 0 paused_triple 0" by (simp add: collides_def)
  have c1: "collides 0 paused_triple 1"
    using bodies_overlap [of 150 0 "(Fin 0, Fin 0, Fin 10)" "(Fin 0, Fin 0, Fin 0)"]
    by (simp add: collides_def separation_bodies paused_triple_def)
  have c2: "collides 0 paused_triple 2"
    using bodies_overlap [of "- 150" 0 "(Fin 0, Fin 0, Fin 10)" "(Fin 0, Fin 0, Fin 0)"]
    by (simp add: collides_def separation_bodies paused_triple_def)
  have u: "[0..<length paused_triple] = [0, 1, 2]"
    by (simp add: paused_triple_def upt_rec)
  have f: "filter (collides 0 paused_triple) [0..<length paused_triple] = [1, 2]"
    using c0 c1 c2 by (simp only: u) simp
  have v: "velocity (paused_triple ! 0) = (Fin 0, Fin 0, Fin 10)"
    by (simp add: paused_triple_def)
  have "velocity (simulate True paused_triple ! 0) =
          vscale (vscale (Fin 0, Fin 0, Fin 10) (Fin (- 2 / 10))) (Fin (- 2 / 10))"
    using damping_once_per_overlapping_pair [OF l, of True, THEN conjunct2]
    unfolding f v by simp
  then show ?thesis
    using l v by (simp add: f vscale_def vx_def vy_def vz_def)
qed

section \<open>Bodies at the same place\<close>



section \<open>The callbacks\<close>

text \<open>
  C10. A key event sets \<open>pause\<close> to whether K is down: true while K is held, false
  otherwise. The flag is true when the program starts, and the vector of bodies is not
  empty then, so the first key event with K up clears it.
\<close>

theorem keyCallback_pause_follows_K:
  assumes "objs s \<noteq> []"
  shows "(\<exists>s'. keyCallback w k a mods s = Inr s' \<and> pause s' = key_down w GLFW_KEY_K)
         \<and> pause initial_sim \<and> objs initial_sim \<noteq> []"
  using assms
  by (simp add: keyCallback_def glfwGetKey_def Let_def initial_sim_def initial_objs_def)

theorem keyCallback_pause_follows_K_witness:
  "objs initial_sim \<noteq> [] \<and> pause initial_sim \<and>
   (\<exists>s'. keyCallback no_keys GLFW_KEY_W GLFW_PRESS 0 initial_sim = Inr s' \<and> \<not> pause s')"
  using keyCallback_pause_follows_K [of initial_sim no_keys GLFW_KEY_W GLFW_PRESS 0]
  by (simp add: initial_sim_def initial_objs_def no_keys_def)


section \<open>Growth of a body under construction\<close>



section \<open>The radius\<close>

text \<open>
  C3, as the claim states it, fails: the radius is not computed with one scale factor.
  For a body under construction the loop over the bodies sets the radius with the
  divisor 1000000 (``smaller radius during creation''), not with \<open>sizeRatio\<close>: after a
  paused frame, the body that a left click created has a radius that differs from the
  one \<open>sizeRatio\<close> gives.
\<close>

theorem creating_radius_uses_other_divisor:
  "Initalizing (objs (frame no_keys (Fin 1) creating_state) ! 0) \<and>
   radius (objs (frame no_keys (Fin 1) creating_state) ! 0) \<noteq>
     radius_of (mass (objs (frame no_keys (Fin 1) creating_state) ! 0))
       (density (objs (frame no_keys (Fin 1) creating_state) ! 0)) sizeRatio"
proof -
  let ?os = "[(at_origin (Fin 0, Fin 0, Fin 0))\<lparr>Initalizing := True\<rparr>]"
  have f: "objs (frame no_keys (Fin 1) creating_state) = simulate True ?os"
    by (simp add: objs_frame creating_state_def no_keys_def grow_def)
  have l: "0 < length ?os" by simp
  show ?thesis
    unfolding f simulate_static [OF l] simulate_radius [OF l]
    using radius_of_divisors_differ [of "10 ^ 22" 3344]
    by (simp add: at_origin_def Object_ctor_def UpdateVertices_def initMass_def)
qed

text \<open>
  C3, amended. The constructor computes the radius with \<open>sizeRatio\<close>. After a frame
  that is not paused every body has the radius that its mass and density give with
  \<open>sizeRatio\<close> (\<open>UpdatePos\<close> recomputes it). After a paused frame a body under
  construction has the radius that the divisor 1000000 gives, and a body that is not
  under construction keeps a radius that was right. In every frame the mesh of a body
  under construction is drawn from the radius with the divisor 1000000.
\<close>

theorem radius_after_frame:
  assumes "i < length (objs s)"
  shows "radius (Object_ctor p0 v0 m d) = radius_of m d sizeRatio
     \<and> (\<not> pause s \<longrightarrow>
          radius_ok (objs (frame w t s) ! i))
     \<and> (pause s \<and> Initalizing (objs (frame w t s) ! i) \<longrightarrow>
          radius (objs (frame w t s) ! i) =
            radius_of (mass (objs (frame w t s) ! i)) (density (objs (frame w t s) ! i))
              (Fin 1000000))
     \<and> (pause s \<and> \<not> Initalizing (objs s ! i) \<and> radius_ok (objs s ! i) \<longrightarrow>
          radius_ok (objs (frame w t s) ! i))
     \<and> (Initalizing (objs (frame w t s) ! i) \<longrightarrow>
          mesh (objs (frame w t s) ! i) =
            radius_of (mass (objs (frame w t s) ! i)) (density (objs (frame w t s) ! i))
              (Fin 1000000))"
proof -
  let ?g = "grow (button_down w GLFW_MOUSE_BUTTON_RIGHT) (fsub t (lastFrame s)) (objs s)"
  have l: "i < length ?g" using assms by simp
  have rel: "\<not> Initalizing (objs s ! i) \<Longrightarrow> ?g ! i = objs s ! i"
    using assms by (simp add: grow_released)
  show ?thesis
    unfolding objs_frame radius_ok_def simulate_static [OF l] simulate_radius [OF l]
      simulate_mesh [OF l]
    using rel by (auto simp: Object_ctor_def UpdateVertices_def)
qed

theorem radius_after_frame_witness:
  "0 < length (objs creating_state) \<and> pause creating_state
   \<and> Initalizing (objs (frame no_keys (Fin 1) creating_state) ! 0)
   \<and> radius (objs (frame no_keys (Fin 1) creating_state) ! 0) =
       radius_of initMass (Fin 3344) (Fin 1000000)
   \<and> mesh (objs (frame no_keys (Fin 1) creating_state) ! 0) =
       radius_of initMass (Fin 3344) (Fin 1000000)
   \<and> 0 < length (objs resting_state) \<and> \<not> pause resting_state
   \<and> radius_ok (objs (frame no_keys (Fin 1) resting_state) ! 0)
   \<and> 0 < length (objs paused_pair) \<and> pause paused_pair
   \<and> \<not> Initalizing (objs paused_pair ! 0) \<and> radius_ok (objs paused_pair ! 0)
   \<and> radius_ok (objs (frame no_keys (Fin 1) paused_pair) ! 0)"
proof -
  have c: "0 < length (objs creating_state)" "pause creating_state"
    by (simp_all add: creating_state_def)
  have ci: "Initalizing (objs (frame no_keys (Fin 1) creating_state) ! 0)"
    "mass (objs (frame no_keys (Fin 1) creating_state) ! 0) = initMass"
    "density (objs (frame no_keys (Fin 1) creating_state) ! 0) = Fin 3344"
    by (simp_all add: objs_frame creating_state_def no_keys_def grow_def simulate_static
          at_origin_def Object_ctor_def UpdateVertices_def)
  have r: "0 < length (objs resting_state)" "\<not> pause resting_state"
    by (simp_all add: resting_state_def resting_pair_def)
  have p: "0 < length (objs paused_pair)" "pause paused_pair"
    "\<not> Initalizing (objs paused_pair ! 0)" "radius_ok (objs paused_pair ! 0)"
    by (simp_all add: paused_pair_def radius_ok_def body_def Object_ctor_def
          UpdateVertices_def)
  from radius_after_frame [OF c(1), of _ _ _ _ no_keys "Fin 1"] c(2) ci
  have "radius (objs (frame no_keys (Fin 1) creating_state) ! 0) =
          radius_of initMass (Fin 3344) (Fin 1000000)"
    and "mesh (objs (frame no_keys (Fin 1) creating_state) ! 0) =
          radius_of initMass (Fin 3344) (Fin 1000000)"
    by simp_all
  moreover from radius_after_frame [OF r(1), of _ _ _ _ no_keys "Fin 1"] r(2)
  have "radius_ok (objs (frame no_keys (Fin 1) resting_state) ! 0)"
    by blast
  moreover from radius_after_frame [OF p(1), of _ _ _ _ no_keys "Fin 1"] p
  have "radius_ok (objs (frame no_keys (Fin 1) paused_pair) ! 0)"
    by blast
  ultimately show ?thesis using c ci r p by simp
qed

section \<open>The depth of the grid near a body\<close>

text \<open>
  C2, as the claim states it, fails: the program has no clamp. A vertex at the place
  of the body that a left click creates is closer to it than its Schwarzschild radius; the
  square root of a negative number is NaN, and \<open>UpdateGridVertices\<close> writes NaN into the
  vertex.
\<close>

theorem vertex_inside_schwarzschild_radius_is_NaN:
  "UpdateGridVertices [(Fin 0, Fin 0, Fin 0)] [at_origin (Fin 0, Fin 0, Fin 0)]
     = [(Fin 0, NaN, Fin 0)]"
proof -
  have m: "mass (at_origin (Fin 0, Fin 0, Fin 0)) = Fin (10 ^ 22)"
    by (simp add: at_origin_def Object_ctor_def UpdateVertices_def initMass_def)
  have rs: "schwarzschild (at_origin (Fin 0, Fin 0, Fin 0)) =
              Fin (2 * (66743 / 10 ^ 15) * 10 ^ 22 / (299792458 * 299792458))"
    using m by (rule schwarzschild_Fin)
  have "depth (Fin 0, Fin 0, Fin 0) (at_origin (Fin 0, Fin 0, Fin 0)) = NaN"
    using depth_Fin [OF rs _ distance_m_at_origin] by simp
  then have "totalDisplacement_y (Fin 0, Fin 0, Fin 0) [at_origin (Fin 0, Fin 0, Fin 0)] = NaN"
    by (simp add: totalDisplacement_NaN)
  then show ?thesis
    by (simp add: UpdateGridVertices_def vx_def vz_def)
qed

text \<open>
  C2, amended. For a body of positive finite mass the Schwarzschild radius \<open>rs\<close> is
  positive. At a vertex whose distance in meters \<open>dm\<close> is finite, the depth that the body
  adds is NaN when \<open>dm < rs\<close> and the finite, non-negative value
  \<open>2 * sqrt (rs * (dm - rs))\<close> otherwise (zero at \<open>dm = rs\<close>). When \<open>dm < rs\<close> for a body of
  the vector and a vertex of the buffer, \<open>UpdateGridVertices\<close> returns that vertex with NaN
  as its height, and so does the \<open>CreateGridVertices\<close> of the second physics variant for
  a vertex of its grid.
\<close>

theorem depth_not_clamped:
  assumes "mass ob = Fin m" "0 < m" "distance_m v ob = Fin dm"
  shows "\<exists>rs. schwarzschild ob = Fin rs \<and> 0 < rs
           \<and> depth v ob = (if dm < rs then NaN else Fin (2 * sqrt (rs * (dm - rs))))
           \<and> (dm < rs \<and> ob \<in> set os \<and> v \<in> set vertices \<longrightarrow>
                (vx v, NaN, vz v) \<in> set (UpdateGridVertices vertices os))
           \<and> (dm < rs \<and> ob \<in> set os \<and> v \<in> set (grid_lines gridSize n) \<longrightarrow>
                (vx v, NaN, vz v) \<in> set (CreateGridVertices_part_001 gridSize n os))"
proof -
  let ?rs = "2 * (66743 / 10 ^ 15) * m / (299792458 * 299792458)"
  have rs: "schwarzschild ob = Fin ?rs" using assms(1) by (rule schwarzschild_Fin)
  have pos: "0 < ?rs" using assms(2) by simp
  have d: "depth v ob = (if dm < ?rs then NaN else Fin (2 * sqrt (?rs * (dm - ?rs))))"
    using rs pos assms(3) by (rule depth_Fin)
  have u: "dm < ?rs \<and> ob \<in> set os \<and> v \<in> set vertices \<longrightarrow>
          (vx v, NaN, vz v) \<in> set (UpdateGridVertices vertices os)"
    using d UpdateGridVertices_NaN [of ob os v vertices] by auto
  have "dm < ?rs \<and> ob \<in> set os \<and> v \<in> set (grid_lines gridSize n) \<longrightarrow>
          (vx v, NaN, vz v) \<in> set (CreateGridVertices_part_001 gridSize n os)"
    using d CreateGridVertices_part_001_NaN [of ob os v gridSize n] by auto
  with rs pos d u show ?thesis by blast
qed

theorem depth_not_clamped_witness:
  "mass (at_origin (Fin 0, Fin 0, Fin 0)) = Fin (10 ^ 22)
   \<and> distance_m (Fin 0, Fin 0, Fin 0) (at_origin (Fin 0, Fin 0, Fin 0)) = Fin 0
   \<and> depth (Fin 0, Fin 0, Fin 0) (at_origin (Fin 0, Fin 0, Fin 0)) = NaN
   \<and> (Fin 0, NaN, Fin 0) \<in>
        set (UpdateGridVertices [(Fin 0, Fin 0, Fin 0)] [at_origin (Fin 0, Fin 0, Fin 0)])
   \<and> (Fin (- 1), Fin (57 / 10), Fin (- 1)) \<in> set (grid_lines (Fin 2) 1)
   \<and> (Fin (- 1), NaN, Fin (- 1)) \<in>
        set (CreateGridVertices_part_001 (Fin 2) 1
               [Object_ctor (Fin (- 1), Fin (57 / 10), Fin (- 1)) (Fin 0, Fin 0, Fin 0)
                  initMass (Fin 3344)])"
proof -
  let ?o = "at_origin (Fin 0, Fin 0, Fin 0)"
  let ?v = "(Fin (- 1), Fin (57 / 10), Fin (- 1))"
  let ?b = "Object_ctor ?v (Fin 0, Fin 0, Fin 0) initMass (Fin 3344)"
  have m: "mass ?o = Fin (10 ^ 22)"
    by (simp add: at_origin_def Object_ctor_def UpdateVertices_def initMass_def)
  have p: "(0::real) < 10 ^ 22" by simp
  from depth_not_clamped [OF m p distance_m_at_origin, where os = "[?o]"
      and vertices = "[(Fin 0, Fin 0, Fin 0)]" and gridSize = "Fin 2" and n = 1]
  have 1: "depth (Fin 0, Fin 0, Fin 0) ?o = NaN"
    and 2: "(Fin 0, NaN, Fin 0) \<in> set (UpdateGridVertices [(Fin 0, Fin 0, Fin 0)] [?o])"
    by (auto simp: vx_def vz_def)
  have mb: "mass ?b = Fin (10 ^ 22)"
    by (simp add: Object_ctor_def UpdateVertices_def initMass_def)
  have db: "distance_m ?v ?b = Fin 0"
    by (simp add: distance_m_def vlength_def vsub_def vx_def vy_def vz_def fsub_def
          Object_ctor_def UpdateVertices_def)
  have g: "?v \<in> set (grid_lines (Fin 2) 1)"
    by (simp add: grid_lines_def Let_def)
  from depth_not_clamped [OF mb p db, where os = "[?b]" and vertices = "[]"
      and gridSize = "Fin 2" and n = 1] g
  have 3: "(Fin (- 1), NaN, Fin (- 1)) \<in> set (CreateGridVertices_part_001 (Fin 2) 1 [?b])"
    by (auto simp: vx_def vz_def)
  from m distance_m_at_origin 1 2 g 3 show ?thesis by blast
qed

section \<open>Recomputing the grid\<close>

text \<open>
  \<open>UpdateGridVertices\<close> keeps the number of vertices and the x and z of every vertex,
  also when it is applied to its own result. The new height of a vertex is computed from
  the buffer that is passed in: from the distance of the old vertex to each body and from
  the largest old height.
\<close>

lemma UpdateGridVertices_keeps_x_z:
  "length (UpdateGridVertices vs os) = length vs
   \<and> map vx (UpdateGridVertices vs os) = map vx vs
   \<and> map vz (UpdateGridVertices vs os) = map vz vs
   \<and> map vx (UpdateGridVertices (UpdateGridVertices vs os) os) = map vx vs
   \<and> map vz (UpdateGridVertices (UpdateGridVertices vs os) os) = map vz vs
   \<and> map vy (UpdateGridVertices vs os) =
       map (\<lambda>v. fadd (totalDisplacement_y v os)
                  (fneg (fabs (fsub (center_of_mass_y os) (originalMaxY vs))))) vs"
  by (simp add: UpdateGridVertices_def Let_def vx_def vy_def vz_def comp_def)

text \<open>
  Applied to the buffer it produced, with the same body, \<open>UpdateGridVertices\<close> gives
  another buffer: with one vertex at height 1000 above the body that a left click creates,
  the first application gives a height below -984 and the second one a different height.
\<close>

lemma update_twice_differs:
  "UpdateGridVertices
     (UpdateGridVertices [(Fin 0, Fin 1000, Fin 0)] [at_origin (Fin 0, Fin 0, Fin 0)])
     [at_origin (Fin 0, Fin 0, Fin 0)]
   \<noteq> UpdateGridVertices [(Fin 0, Fin 1000, Fin 0)] [at_origin (Fin 0, Fin 0, Fin 0)]"
proof -
  let ?o = "at_origin (Fin 0, Fin 0, Fin 0)"
  define rs :: real where "rs = 2 * (66743 / 10 ^ 15) * 10 ^ 22 / (299792458 * 299792458)"
  have m: "mass ?o = Fin (10 ^ 22)"
    by (simp add: at_origin_def Object_ctor_def UpdateVertices_def initMass_def)
  have rs: "schwarzschild ?o = Fin rs"
    unfolding rs_def using m by (rule schwarzschild_Fin)
  have pos: "0 < rs" and small: "rs < 1" by (simp_all add: rs_def)
  define q1 where "q1 = rs * (1000 * 1000 - rs)"
  have q1: "0 \<le> q1" "q1 < 16" by (simp_all add: q1_def rs_def)
  have s1: "0 \<le> sqrt q1" "sqrt q1 < 4"
    using q1 real_sqrt_less_iff [of q1 16] by simp_all
  define y1 where "y1 = 2 * sqrt q1 * 2 - 1000"
  have y1: "y1 < - 984" using s1 by (simp add: y1_def)
  have d1: "depth (Fin 0, Fin 1000, Fin 0) ?o = Fin (2 * sqrt q1)"
    using depth_Fin [OF rs pos distance_m_single [of 1000]] small by (simp add: q1_def)
  have u1: "UpdateGridVertices [(Fin 0, Fin 1000, Fin 0)] [?o] = [(Fin 0, Fin y1, Fin 0)]"
    by (simp add: update_single d1 y1_def)
  define q2 where "q2 = rs * (\<bar>y1\<bar> * 1000 - rs)"
  have q2: "0 < q2" using y1 pos small by (simp add: q2_def)
  have d2: "depth (Fin 0, Fin y1, Fin 0) ?o = Fin (2 * sqrt q2)"
    using depth_Fin [OF rs pos distance_m_single [of y1]] y1 small by (simp add: q2_def)
  have u2: "UpdateGridVertices [(Fin 0, Fin y1, Fin 0)] [?o] =
              [(Fin 0, Fin (2 * sqrt q2 * 2 - \<bar>y1\<bar>), Fin 0)]"
    by (simp add: update_single d2)
  have "2 * sqrt q2 * 2 - \<bar>y1\<bar> \<noteq> y1"
    using q2 y1 by simp
  then show ?thesis
    unfolding u1 u2 by simp
qed

text \<open>
  C7. With unchanged bodies the grid must be the same from one computation to the
  next. The program passes the buffer of the last frame back into \<open>UpdateGridVertices\<close>,
  which reads the old heights as if they were those of the flat grid (``original grid
  height''): in the paused state \<open>grid_demo\<close> two frames in a row leave the single body as
  it is, and the grid of the second frame differs from the grid of the first.
\<close>

theorem grid_changes_between_paused_frames:
  "objs (frame no_keys (Fin 1) grid_demo) = objs grid_demo \<and>
   objs (frame no_keys (Fin 2) (frame no_keys (Fin 1) grid_demo)) = objs grid_demo \<and>
   gridVertices (frame no_keys (Fin 2) (frame no_keys (Fin 1) grid_demo)) \<noteq>
   gridVertices (frame no_keys (Fin 1) grid_demo)"
proof -
  let ?o = "at_origin (Fin 0, Fin 0, Fin 0)"
  let ?s1 = "frame no_keys (Fin 1) grid_demo"
  have i: "\<not> Initalizing ?o"
    by (simp add: at_origin_def Object_ctor_def UpdateVertices_def)
  have s0: "objs grid_demo = [?o]" "pause grid_demo"
    "gridVertices grid_demo = [(Fin 0, Fin 1000, Fin 0)]"
    by (simp_all add: grid_demo_def)
  note f1 = paused_single_frame [OF s0(1) i s0(2), of no_keys "Fin 1"]
  note f2 = paused_single_frame [OF f1(1) i f1(3), of no_keys "Fin 2"]
  show ?thesis
    unfolding f2(1) f2(2) f1(1) f1(2) s0 using update_twice_differs by simp
qed

section \<open>Two equal bodies at rest\<close>




end
